theory Spec2Isabelle
  imports Complex_Main "HOL-Library.Char_ord" "HOL-Library.List_Lexorder"
begin

section \<open>Numbers\<close>

text \<open>
  The TypeScript sources compute with \<^verbatim>\<open>number\<close>. Amounts, rates and bounds are modelled
  as exact rationals (\<^typ>\<open>rat\<close>): the development is about the algorithms (which portion of
  an amount is taxed, capped, moved or summed), not about binary rounding.  \<^verbatim>\<open>Infinity\<close>
  only occurs as the bound of an open bracket and is modelled by \<^term>\<open>None\<close>.
\<close>

section \<open>Federal withholding (src/lib/payroll/federal/withholding.ts)\<close>

record TaxBracket =
  lowerBound :: rat
  upperBound :: "rat option"
  rate :: rat

text \<open>\<^verbatim>\<open>Math.min(taxableIncome, bracket.upperBound ?? Infinity)\<close>\<close>

definition min_upper :: "rat \<Rightarrow> rat option \<Rightarrow> rat" where
  "min_upper taxableIncome ub = (case ub of None \<Rightarrow> taxableIncome | Some u \<Rightarrow> min taxableIncome u)"

text \<open>The callback of the \<^verbatim>\<open>reduce\<close> in \<^verbatim>\<open>calculateAnnualTax\<close>.\<close>

definition tax_step :: "rat \<Rightarrow> rat \<Rightarrow> TaxBracket \<Rightarrow> rat" where
  "tax_step taxableIncome acc bracket =
     (let taxableAtBracket = max 0 (min_upper taxableIncome (upperBound bracket) - lowerBound bracket)
      in if taxableAtBracket \<le> 0 then acc else acc + taxableAtBracket * rate bracket)"

definition calculateAnnualTax :: "rat \<Rightarrow> TaxBracket list \<Rightarrow> rat" where
  "calculateAnnualTax taxableIncome brackets =
     (if taxableIncome \<le> 0 then 0 else foldl (tax_step taxableIncome) 0 brackets)"

record WithholdingInput =
  taxableWagesPerPaycheck :: rat
  payPeriodsPerYear :: rat
  standardDeduction :: rat
  deductionsAnnual :: rat
  otherIncomeAnnual :: rat
  brackets :: "TaxBracket list"
  dependentCredit :: rat
  dependentsCount :: rat
  dependentCreditOverride :: "rat option"
  extraWithholdingPerPaycheck :: rat

text \<open>
  The \<^verbatim>\<open>filingStatus\<close> argument of the source is not read by the function body and is
  left out of the record.  The only caller passes 52, 26, 24 or 12 as
  \<^verbatim>\<open>payPeriodsPerYear\<close>, so the division is never by zero.
\<close>

definition calculateFederalWithholding :: "WithholdingInput \<Rightarrow> rat" where
  "calculateFederalWithholding i =
     (let annualizedWages = taxableWagesPerPaycheck i * payPeriodsPerYear i;
          adjustedIncome = annualizedWages + otherIncomeAnnual i;
          totalDeductions = standardDeduction i + deductionsAnnual i;
          taxableIncome = max 0 (adjustedIncome - totalDeductions);
          annualTax = calculateAnnualTax taxableIncome (brackets i);
          credit = (case dependentCreditOverride i of
                      Some c \<Rightarrow> c
                    | None \<Rightarrow> dependentsCount i * dependentCredit i);
          annualAfterCredits = max 0 (annualTax - credit);
          perPaycheck = annualAfterCredits / payPeriodsPerYear i
      in max 0 (perPaycheck + extraWithholdingPerPaycheck i))"

text \<open>
  The specification's wording of one bracket's share: the portion of the income between the
  bracket's lower bound and the smaller of its upper bound (or infinity) and the income.
\<close>

definition spec_bracket_portion :: "rat \<Rightarrow> TaxBracket \<Rightarrow> rat" where
  "spec_bracket_portion income b = max 0 (min_upper income (upperBound b) - lowerBound b)"

definition spec_progressive_tax :: "rat \<Rightarrow> TaxBracket list \<Rightarrow> rat" where
  "spec_progressive_tax income bs = (\<Sum>b\<leftarrow>bs. spec_bracket_portion income b * rate b)"

definition example_brackets :: "TaxBracket list" where
  "example_brackets =
     [\<lparr>lowerBound = 0, upperBound = Some 10000, rate = 1 / 10\<rparr>,
      \<lparr>lowerBound = 10000, upperBound = None, rate = 2 / 10\<rparr>]"

section \<open>Strings and numbers of the JavaScript runtime\<close>

text \<open>
  Strings are lists of characters.  A value that may be \<^verbatim>\<open>NaN\<close> is an \<^typ>\<open>int option\<close>
  with \<^term>\<open>None\<close> for \<^verbatim>\<open>NaN\<close>; an optional property is an option with \<^term>\<open>None\<close>
  for \<^verbatim>\<open>undefined\<close>.
\<close>

definition truthy_str :: "string \<Rightarrow> bool" where
  "truthy_str s = (s \<noteq> [])"

definition truthy_opt :: "string option \<Rightarrow> bool" where
  "truthy_opt v = (case v of None \<Rightarrow> False | Some s \<Rightarrow> s \<noteq> [])"

definition truthy_flag :: "bool option \<Rightarrow> bool" where
  "truthy_flag v = (v = Some True)"

definition digit_char :: "nat \<Rightarrow> char" where
  "digit_char d = ''0123456789'' ! d"

fun nat_to_string :: "nat \<Rightarrow> string" where
  "nat_to_string n =
     (if n < 10 then [digit_char n] else nat_to_string (n div 10) @ [digit_char (n mod 10)])"

declare nat_to_string.simps [simp del]

definition int_to_string :: "int \<Rightarrow> string" where
  "int_to_string i = (if i < 0 then CHR ''-'' # nat_to_string (nat (- i)) else nat_to_string (nat i))"

text \<open>\<^verbatim>\<open>`${n}`\<close> and \<^verbatim>\<open>n.toString()\<close> for an integer or \<^verbatim>\<open>NaN\<close>.\<close>

definition num_to_string :: "int option \<Rightarrow> string" where
  "num_to_string v = (case v of None \<Rightarrow> ''NaN'' | Some i \<Rightarrow> int_to_string i)"

text \<open>\<^verbatim>\<open>s.padStart(2, '0')\<close>\<close>

definition padStart2 :: "string \<Rightarrow> string" where
  "padStart2 s = replicate (2 - length s) CHR ''0'' @ s"

text \<open>\<^verbatim>\<open>s.split(c)\<close> for a one-character separator: the result is never empty.\<close>

fun split_on :: "char \<Rightarrow> string \<Rightarrow> string list" where
  "split_on c [] = [[]]"
| "split_on c (x # xs) =
     (if x = c then [] # split_on c xs
      else (case split_on c xs of w # ws \<Rightarrow> (x # w) # ws | [] \<Rightarrow> [[x]]))"

definition is_digit :: "char \<Rightarrow> bool" where
  "is_digit c = (c \<in> set ''0123456789'')"

definition digit_val :: "char \<Rightarrow> nat" where
  "digit_val c = of_char c - 48"

definition digits_to_nat :: "string \<Rightarrow> nat" where
  "digits_to_nat ds = foldl (\<lambda>acc c. 10 * acc + digit_val c) 0 ds"

text \<open>
  \<^verbatim>\<open>Number(s)\<close> on the strings the date helpers feed it: a string of decimal digits is its
  value and the empty string is 0.  Every other string is taken to \<^verbatim>\<open>NaN\<close>; the further
  numeric literals JavaScript accepts (signs, blanks, a fraction, an exponent, a radix
  prefix) lie outside the modelled inputs.
\<close>

definition Number_js :: "string \<Rightarrow> int option" where
  "Number_js s =
     (if s = [] then Some 0
      else if list_all is_digit s then Some (int (digits_to_nat s))
      else None)"

text \<open>An element of a destructured array: a missing element is \<^verbatim>\<open>undefined\<close>, hence \<^verbatim>\<open>NaN\<close>.\<close>

definition nth_num :: "string list \<Rightarrow> nat \<Rightarrow> int option" where
  "nth_num parts k = (if k < length parts then Number_js (parts ! k) else None)"

text \<open>
  The white space and line terminators that \<^verbatim>\<open>parseInt\<close> skips, among the characters a
  \<^typ>\<open>char\<close> holds (code units below 256): tab, line feed, vertical tab, form feed,
  carriage return, space and the no-break space U+00A0.
\<close>

definition is_space :: "char \<Rightarrow> bool" where
  "is_space c = (of_char c \<in> set [9, 10, 11, 12, 13, 32, 160 :: nat])"

text \<open>
  \<^verbatim>\<open>parseInt(s, 10)\<close>: leading blanks are skipped, a sign is read, and the longest prefix of
  decimal digits is the value, whatever follows it; without a digit the result is
  \<^verbatim>\<open>NaN\<close>.  The value is the exact integer; \<open>js_finite\<close> says whether its conversion to a
  double is finite.
\<close>

definition parseInt10 :: "string \<Rightarrow> int option" where
  "parseInt10 s =
     (let t = dropWhile is_space s;
          neg = (t \<noteq> [] \<and> hd t = CHR ''-'');
          u = (if t \<noteq> [] \<and> (hd t = CHR ''-'' \<or> hd t = CHR ''+'') then tl t else t);
          ds = takeWhile is_digit u
      in if ds = [] then None
         else if neg then Some (- int (digits_to_nat ds)) else Some (int (digits_to_nat ds)))"

definition js_finite :: "int \<Rightarrow> bool" where
  "js_finite n = (\<bar>n\<bar> < 2 ^ 1024 - 2 ^ 970)"

text \<open>\<^verbatim>\<open>Math.max\<close> and \<^verbatim>\<open>Math.min\<close> return \<^verbatim>\<open>NaN\<close> when an argument is \<^verbatim>\<open>NaN\<close>.\<close>

definition js_max :: "int option \<Rightarrow> int option \<Rightarrow> int option" where
  "js_max a b = (case (a, b) of (Some x, Some y) \<Rightarrow> Some (max x y) | _ \<Rightarrow> None)"

definition js_min :: "int option \<Rightarrow> int option \<Rightarrow> int option" where
  "js_min a b = (case (a, b) of (Some x, Some y) \<Rightarrow> Some (min x y) | _ \<Rightarrow> None)"

section \<open>Calendar dates of the JavaScript runtime\<close>

text \<open>
  The sources build every \<^verbatim>\<open>Date\<close> from calendar components at local midnight and read
  only its calendar components back, so a valid \<^verbatim>\<open>Date\<close> is modelled by its day number
  (days since 1970-01-01 in the proleptic Gregorian calendar) and \<^verbatim>\<open>Invalid Date\<close> by
  \<^term>\<open>None\<close>.  Comparing two dates compares their day numbers, and a comparison with an
  invalid date is false.
\<close>

definition days_from_civil :: "int \<Rightarrow> int \<Rightarrow> int \<Rightarrow> int" where
  "days_from_civil y m d =
     (let y1 = (if m \<le> 2 then y - 1 else y);
          era = y1 div 400;
          yoe = y1 - era * 400;
          mp = (if m > 2 then m - 3 else m + 9);
          doy = (153 * mp + 2) div 5 + d - 1;
          doe = yoe * 365 + yoe div 4 - yoe div 100 + doy
      in era * 146097 + doe - 719468)"

definition civil_from_days :: "int \<Rightarrow> int \<times> int \<times> int" where
  "civil_from_days z =
     (let z1 = z + 719468;
          era = z1 div 146097;
          doe = z1 - era * 146097;
          yoe = (doe - doe div 1460 + doe div 36524 - doe div 146096) div 365;
          doy = doe - (365 * yoe + yoe div 4 - yoe div 100);
          mp = (5 * doy + 2) div 153;
          d = doy - (153 * mp + 2) div 5 + 1;
          m = (if mp < 10 then mp + 3 else mp - 9)
      in (if m \<le> 2 then yoe + era * 400 + 1 else yoe + era * 400, m, d))"

text \<open>A time value is a valid date up to 100 000 000 days either side of the epoch.\<close>

definition in_date_range :: "int \<Rightarrow> bool" where
  "in_date_range t = (\<bar>t\<bar> \<le> 100000000)"

text \<open>
  \<^verbatim>\<open>new Date(year, monthIndex, day)\<close>: a year from 0 to 99 means 1900 + year, the month index
  may lie outside 0..11 and the day outside the month; both carry over.
\<close>

definition MakeDate :: "int option \<Rightarrow> int option \<Rightarrow> int option \<Rightarrow> int option" where
  "MakeDate year monthIndex day =
     (case (year, monthIndex, day) of
        (Some y, Some m, Some d) \<Rightarrow>
          (let yr = (if 0 \<le> y \<and> y \<le> 99 then 1900 + y else y);
               t = days_from_civil (yr + m div 12) (m mod 12 + 1) 1 + d - 1
           in if in_date_range t then Some t else None)
      | _ \<Rightarrow> None)"

definition getFullYear :: "int option \<Rightarrow> int option" where
  "getFullYear t = map_option (\<lambda>z. fst (civil_from_days z)) t"

text \<open>\<^verbatim>\<open>getMonth()\<close> is the month index, 0 for January.\<close>

definition getMonth :: "int option \<Rightarrow> int option" where
  "getMonth t = map_option (\<lambda>z. fst (snd (civil_from_days z)) - 1) t"

definition getDate :: "int option \<Rightarrow> int option" where
  "getDate t = map_option (\<lambda>z. snd (snd (civil_from_days z))) t"

definition num_add :: "int option \<Rightarrow> int \<Rightarrow> int option" where
  "num_add v k = map_option (\<lambda>i. i + k) v"

definition parseDate :: "string \<Rightarrow> int option" where
  "parseDate v =
     (let parts = split_on CHR ''-'' v
      in MakeDate (nth_num parts 0) (num_add (nth_num parts 1) (- 1)) (nth_num parts 2))"

definition formatDate :: "int \<Rightarrow> string" where
  "formatDate t =
     (let year = getFullYear (Some t);
          month = padStart2 (num_to_string (num_add (getMonth (Some t)) 1));
          day = padStart2 (num_to_string (getDate (Some t)))
      in num_to_string year @ ''-'' @ month @ ''-'' @ day)"

record MonthInfo =
  mi_daysInMonth :: "int option"
  mi_start :: "int option"
  mi_end :: "int option"

text \<open>
  \<^verbatim>\<open>getMonthInfo\<close>; the record keeps the three components its callers read.
\<close>

definition getMonthInfo :: "string \<Rightarrow> MonthInfo" where
  "getMonthInfo monthId =
     (let parts = split_on CHR ''-'' monthId;
          year = nth_num parts 0;
          month = nth_num parts 1;
          daysInMonth = getDate (MakeDate year month (Some 0))
      in \<lparr>mi_daysInMonth = daysInMonth,
          mi_start = MakeDate year (num_add month (- 1)) (Some 1),
          mi_end = MakeDate year (num_add month (- 1)) daysInMonth\<rparr>)"

section \<open>Schedule dates (src/lib/storage.ts, generation part)\<close>

datatype Cadence = Weekly | Biweekly | Semimonthly | Monthly

text \<open>
  The two loops of \<^verbatim>\<open>getDatesByInterval\<close>.  A step rebuilds the date from its year, month
  and day plus the interval, which moves the day number by the interval.  Both call sites
  pass the constants 7 and 14; the guard \<open>0 < intervalDays\<close> records that, and the loops
  compare with a valid date only.
\<close>

function advance_to_start :: "int \<Rightarrow> int \<Rightarrow> int \<Rightarrow> int option" where
  "advance_to_start start intervalDays current =
     (if current < start \<and> 0 < intervalDays
      then (if in_date_range (current + intervalDays)
            then advance_to_start start intervalDays (current + intervalDays)
            else None)
      else Some current)"
  by pat_completeness auto
termination
  by (relation "measure (\<lambda>(start, intervalDays, current). nat (start - current))") auto

declare advance_to_start.simps [simp del]

function collect_dates :: "int option \<Rightarrow> int \<Rightarrow> int \<Rightarrow> int \<Rightarrow> string list" where
  "collect_dates start end_day intervalDays current =
     (if current \<le> end_day \<and> 0 < intervalDays
      then (if (case start of None \<Rightarrow> False | Some s \<Rightarrow> s \<le> current)
            then [formatDate current] else [])
           @ (if in_date_range (current + intervalDays)
              then collect_dates start end_day intervalDays (current + intervalDays)
              else [])
      else [])"
  by pat_completeness auto
termination
  by (relation "measure (\<lambda>(start, end_day, intervalDays, current). nat (end_day + 1 - current))")
     auto

declare collect_dates.simps [simp del]

text \<open>
  \<^verbatim>\<open>getDatesByInterval\<close> on the month's first and last day and the parsed anchor (the engine's
  copy takes them as arguments, the generator's copy computes them from the month id).
\<close>

definition datesByInterval :: "int option \<Rightarrow> int option \<Rightarrow> int option \<Rightarrow> int \<Rightarrow> string list" where
  "datesByInterval start end_date anchor intervalDays =
     (case anchor of
        None \<Rightarrow> []
      | Some a \<Rightarrow>
          (case (case start of None \<Rightarrow> Some a | Some s \<Rightarrow> advance_to_start s intervalDays a) of
             None \<Rightarrow> []
           | Some current \<Rightarrow>
               (case end_date of
                  None \<Rightarrow> []
                | Some e \<Rightarrow> collect_dates start e intervalDays current)))"

definition getDatesByInterval :: "string \<Rightarrow> string \<Rightarrow> int \<Rightarrow> string list" where
  "getDatesByInterval monthId anchorDate intervalDays =
     (let info = getMonthInfo monthId
      in datesByInterval (mi_start info) (mi_end info) (parseDate anchorDate) intervalDays)"

text \<open>\<^verbatim>\<open>Number.isFinite(dayNum) ? dayNum : fallbackDay\<close>\<close>

definition finite_or :: "int option \<Rightarrow> int option \<Rightarrow> int option" where
  "finite_or dayNum fallbackDay =
     (case dayNum of
        Some n \<Rightarrow> (if js_finite n then Some n else fallbackDay)
      | None \<Rightarrow> fallbackDay)"

definition getMonthlyDate :: "string \<Rightarrow> string \<Rightarrow> int option \<Rightarrow> string" where
  "getMonthlyDate monthId dayRule fallbackDay =
     (let daysInMonth = mi_daysInMonth (getMonthInfo monthId)
      in if dayRule = ''last''
         then monthId @ ''-'' @ padStart2 (num_to_string daysInMonth)
         else
           (let raw = (if take 4 dayRule = ''day:'' then drop 4 dayRule else dayRule);
                dayNum = parseInt10 raw;
                day = finite_or dayNum fallbackDay;
                clamped = js_min (js_max day (Some 1)) daysInMonth
            in monthId @ ''-'' @ padStart2 (num_to_string clamped)))"

definition semimonthlyDates :: "string \<Rightarrow> string list" where
  "semimonthlyDates monthId =
     [monthId @ ''-15'',
      monthId @ ''-'' @ padStart2 (num_to_string (mi_daysInMonth (getMonthInfo monthId)))]"

definition getScheduleDates :: "string \<Rightarrow> Cadence \<Rightarrow> string \<Rightarrow> string list" where
  "getScheduleDates monthId schedule anchorDate =
     (case schedule of
        Weekly \<Rightarrow> getDatesByInterval monthId anchorDate 7
      | Biweekly \<Rightarrow> getDatesByInterval monthId anchorDate 14
      | Semimonthly \<Rightarrow> semimonthlyDates monthId
      | Monthly \<Rightarrow>
          (let anchorDay = getDate (parseDate anchorDate)
           in [getMonthlyDate monthId (num_to_string anchorDay) (Some 1)]))"

section \<open>Transactions and the month setup (src/types.ts)\<close>

datatype RecurringItemType = Income | Expense | Transfer

datatype Source = Generated | Manual

record Transaction =
  tx_id :: string
  tx_date :: string
  tx_amount :: rat
  tx_account_id :: string
  tx_transfer_account_id :: "string option"
  tx_transaction_type :: "RecurringItemType option"
  tx_category_id :: string
  tx_description :: string
  tx_notes :: "string option"
  tx_loan_id :: "string option"
  tx_created_at :: int
  tx_updated_at :: int
  tx_source :: "Source option"
  tx_source_item_id :: "string option"
  tx_generated_batch_id :: "string option"

record RecurringItem =
  ri_id :: string
  ri_name :: string
  ri_category_id :: string
  ri_account_id :: string
  ri_transfer_account_id :: "string option"
  ri_loan_id :: "string option"
  ri_cadence :: Cadence
  ri_default_amount :: rat
  ri_day_rule :: string
  ri_type :: RecurringItemType
  ri_enabled :: bool
  ri_anchor_date :: "string option"

record PaycheckEntry =
  pe_id :: string
  pe_date :: string
  pe_amount :: rat
  pe_is_bonus :: "bool option"
  pe_description :: "string option"

record PaycheckDepositSplit =
  sp_id :: string
  sp_account_id :: string
  sp_amount :: rat
  sp_is_remainder :: "bool option"

record VariableOverride =
  vo_item_id :: string
  vo_amount :: rat

record OneOffAdjustment =
  oo_id :: string
  oo_date :: string
  oo_description :: string
  oo_amount :: rat
  oo_account_id :: string
  oo_transfer_account_id :: "string option"
  oo_category_id :: string
  oo_loan_id :: "string option"
  oo_type :: RecurringItemType

record MonthSetup =
  paycheck_schedule :: Cadence
  paycheck_anchor_date :: string
  paycheck_deposit_splits :: "PaycheckDepositSplit list"
  paycheck_category_id :: string
  paycheck_default_amount :: rat
  paycheck_estimates :: "PaycheckEntry list option"
  paycheck_overrides :: "PaycheckEntry list"
  variable_overrides :: "VariableOverride list"
  one_offs :: "OneOffAdjustment list"
  last_generated_at :: int
  generation_version :: int

section \<open>The transaction generator (src/lib/storage.ts, generation part)\<close>

datatype GenerateMode = Missing | Regenerate | Reset

text \<open>
  The generator reads two things that are not arguments: \<^verbatim>\<open>crypto.randomUUID()\<close> and
  \<^verbatim>\<open>Date.now()\<close>.  They are made explicit: \<open>randomUUID k\<close> is the value of the \<open>k\<close>-th
  call of one run (counted from 0), \<open>now_first\<close> and \<open>now_second\<close> are the two clock
  readings.  Every builder below takes the number of calls made so far and makes one call
  per object it creates, in the order of the source.
\<close>

record Env =
  randomUUID :: "nat \<Rightarrow> string"
  now_first :: int
  now_second :: int

definition resolveAmount :: "RecurringItemType \<Rightarrow> rat \<Rightarrow> rat" where
  "resolveAmount ty amount = (let absolute = \<bar>amount\<bar> in if ty = Income then absolute else - absolute)"

text \<open>\<^verbatim>\<open>Math.round(value * 100) / 100\<close>; \<^verbatim>\<open>Math.round\<close> rounds a half upwards.\<close>

definition roundToCents :: "rat \<Rightarrow> rat" where
  "roundToCents v = of_int \<lfloor>v * 100 + 1 / 2\<rfloor> / 100"

definition entry_kind :: "PaycheckEntry \<Rightarrow> string" where
  "entry_kind entry = (if truthy_flag (pe_is_bonus entry) then ''bonus'' else ''paycheck'')"

definition entry_description :: "PaycheckEntry \<Rightarrow> string" where
  "entry_description entry =
     (let fallback = (if truthy_flag (pe_is_bonus entry) then ''Bonus'' else ''Paycheck'')
      in (case pe_description entry of
            None \<Rightarrow> fallback
          | Some d \<Rightarrow> if d \<noteq> [] then d else fallback))"

text \<open>The object literal both branches of \<^verbatim>\<open>buildPaycheckSplitTransactions\<close> create.\<close>

definition split_transaction ::
  "string \<Rightarrow> PaycheckEntry \<Rightarrow> MonthSetup \<Rightarrow> int \<Rightarrow> string \<Rightarrow> rat \<Rightarrow> string \<Rightarrow> Transaction" where
  "split_transaction uuid entry monthSetup createdAt generatedBatchId amount account =
     \<lparr>tx_id = uuid,
      tx_date = pe_date entry,
      tx_amount = amount,
      tx_account_id = account,
      tx_transfer_account_id = None,
      tx_transaction_type = None,
      tx_category_id = paycheck_category_id monthSetup,
      tx_description = entry_description entry,
      tx_notes = None,
      tx_loan_id = None,
      tx_created_at = createdAt,
      tx_updated_at = createdAt,
      tx_source = Some Generated,
      tx_source_item_id = Some (entry_kind entry @ '':'' @ pe_date entry @ '':'' @ account),
      tx_generated_batch_id = Some generatedBatchId\<rparr>"

definition buildPaycheckSplitTransactions ::
  "Env \<Rightarrow> nat \<Rightarrow> PaycheckEntry \<Rightarrow> PaycheckDepositSplit list \<Rightarrow> MonthSetup \<Rightarrow> int \<Rightarrow> string
     \<Rightarrow> Transaction list" where
  "buildPaycheckSplitTransactions env calls entry splits monthSetup createdAt generatedBatchId =
     (if \<not> truthy_str (paycheck_category_id monthSetup) then []
      else
        (let eligibleSplits = filter (\<lambda>split. truthy_str (sp_account_id split)) splits
         in if eligibleSplits = [] then []
            else
              (let remainderSplit = find (\<lambda>split. truthy_flag (sp_is_remainder split)) eligibleSplits;
                   fixedSplits =
                     map (\<lambda>split. split\<lparr>sp_amount := \<bar>sp_amount split\<bar>\<rparr>)
                       (filter (\<lambda>split. \<not> truthy_flag (sp_is_remainder split) \<and> sp_amount split \<noteq> 0)
                          eligibleSplits);
                   fixedTotal = foldl (\<lambda>acc split. acc + sp_amount split) 0 fixedSplits;
                   absoluteAmount = \<bar>pe_amount entry\<bar>;
                   tx = map (\<lambda>(k, split).
                               split_transaction (randomUUID env k) entry monthSetup createdAt
                                 generatedBatchId (sp_amount split) (sp_account_id split))
                          (enumerate calls fixedSplits)
               in (case remainderSplit of
                     None \<Rightarrow> tx
                   | Some r \<Rightarrow>
                       (let remainderAmount = roundToCents (max (absoluteAmount - fixedTotal) 0)
                        in if remainderAmount \<noteq> 0
                           then tx @ [split_transaction (randomUUID env (calls + length fixedSplits))
                                        entry monthSetup createdAt generatedBatchId
                                        remainderAmount (sp_account_id r)]
                           else tx)))))"

text \<open>
  \<^verbatim>\<open>xs.flatMap(f)\<close> where \<open>f\<close> draws one identifier per transaction it returns: the count of
  calls moves on by the length of each result.
\<close>

fun flatMap_fresh :: "(nat \<Rightarrow> 'a \<Rightarrow> Transaction list) \<Rightarrow> nat \<Rightarrow> 'a list \<Rightarrow> Transaction list" where
  "flatMap_fresh f calls [] = []"
| "flatMap_fresh f calls (x # xs) =
     (let txs = f calls x in txs @ flatMap_fresh f (calls + length txs) xs)"

definition buildKey :: "PaycheckEntry \<Rightarrow> string" where
  "buildKey entry = pe_date entry @ '':'' @ (if truthy_flag (pe_is_bonus entry) then ''bonus'' else ''regular'')"

text \<open>
  \<^verbatim>\<open>{ ...entry, ...override }\<close>: every property the override has replaces the entry's; an
  optional property the override lacks is kept.
\<close>

definition spread_override :: "PaycheckEntry \<Rightarrow> PaycheckEntry \<Rightarrow> PaycheckEntry" where
  "spread_override entry override =
     \<lparr>pe_id = pe_id override,
      pe_date = pe_date override,
      pe_amount = pe_amount override,
      pe_is_bonus = (case pe_is_bonus override of None \<Rightarrow> pe_is_bonus entry | Some b \<Rightarrow> Some b),
      pe_description =
        (case pe_description override of None \<Rightarrow> pe_description entry | Some d \<Rightarrow> Some d)\<rparr>"

text \<open>The scheduled entries used when no estimate is stored; one identifier per date.\<close>

definition estimateEntries :: "Env \<Rightarrow> string \<Rightarrow> MonthSetup \<Rightarrow> PaycheckEntry list" where
  "estimateEntries env monthId monthSetup =
     (let paycheckDates = getScheduleDates monthId (paycheck_schedule monthSetup)
                            (paycheck_anchor_date monthSetup)
      in (case paycheck_estimates monthSetup of
            Some (e # es) \<Rightarrow> e # es
          | _ \<Rightarrow>
              map (\<lambda>(k, date).
                     \<lparr>pe_id = randomUUID env k, pe_date = date,
                      pe_amount = paycheck_default_amount monthSetup,
                      pe_is_bonus = Some False, pe_description = None\<rparr>)
                (enumerate 1 paycheckDates)))"

text \<open>The number of identifiers drawn before the first transaction is built.\<close>

definition calls_before_paychecks :: "string \<Rightarrow> MonthSetup \<Rightarrow> nat" where
  "calls_before_paychecks monthId monthSetup =
     (case paycheck_estimates monthSetup of
        Some (e # es) \<Rightarrow> 1
      | _ \<Rightarrow> 1 + length (getScheduleDates monthId (paycheck_schedule monthSetup)
                          (paycheck_anchor_date monthSetup)))"

text \<open>\<^verbatim>\<open>new Map(pairs).get(key)\<close>: a later pair with the same key replaces an earlier one.\<close>

definition overridesByKey_get :: "PaycheckEntry list \<Rightarrow> string \<Rightarrow> PaycheckEntry option" where
  "overridesByKey_get overrides key = find (\<lambda>entry. buildKey entry = key) (rev overrides)"

definition baseEntries :: "Env \<Rightarrow> string \<Rightarrow> MonthSetup \<Rightarrow> PaycheckEntry list" where
  "baseEntries env monthId monthSetup =
     map (\<lambda>entry.
            (case overridesByKey_get (paycheck_overrides monthSetup) (buildKey entry) of
               Some override \<Rightarrow> spread_override entry override
             | None \<Rightarrow> entry))
       (estimateEntries env monthId monthSetup)"

definition extraOverrides :: "Env \<Rightarrow> string \<Rightarrow> MonthSetup \<Rightarrow> PaycheckEntry list" where
  "extraOverrides env monthId monthSetup =
     filter (\<lambda>entry. find (\<lambda>e. buildKey e = buildKey entry) (estimateEntries env monthId monthSetup) = None)
       (paycheck_overrides monthSetup)"

definition paycheckEntries :: "Env \<Rightarrow> string \<Rightarrow> MonthSetup \<Rightarrow> PaycheckEntry list" where
  "paycheckEntries env monthId monthSetup =
     baseEntries env monthId monthSetup @ extraOverrides env monthId monthSetup"

definition paycheckTx :: "Env \<Rightarrow> string \<Rightarrow> MonthSetup \<Rightarrow> Transaction list" where
  "paycheckTx env monthId monthSetup =
     flatMap_fresh
       (\<lambda>calls entry. buildPaycheckSplitTransactions env calls entry
                        (paycheck_deposit_splits monthSetup) monthSetup (now_first env)
                        (randomUUID env 0))
       (calls_before_paychecks monthId monthSetup)
       (filter (\<lambda>entry. pe_amount entry \<noteq> 0) (paycheckEntries env monthId monthSetup))"

text \<open>\<^verbatim>\<open>variableOverrides.has(id) ? variableOverrides.get(id) : default_amount\<close>\<close>

definition variable_amount :: "VariableOverride list \<Rightarrow> RecurringItem \<Rightarrow> rat" where
  "variable_amount overrides item =
     (case find (\<lambda>ov. vo_item_id ov = ri_id item) (rev overrides) of
        Some ov \<Rightarrow> vo_amount ov
      | None \<Rightarrow> ri_default_amount item)"

definition item_anchor :: "string \<Rightarrow> RecurringItem \<Rightarrow> string" where
  "item_anchor monthId item =
     (case ri_anchor_date item of
        None \<Rightarrow> monthId @ ''-01''
      | Some a \<Rightarrow> if a \<noteq> [] then a else monthId @ ''-01'')"

text \<open>The dates of one recurring item: the \<^verbatim>\<open>if\<close> chain on its cadence.\<close>

definition item_dates :: "string \<Rightarrow> RecurringItem \<Rightarrow> string list" where
  "item_dates monthId item =
     (let anchor = item_anchor monthId item
      in (case ri_cadence item of
            Weekly \<Rightarrow> getDatesByInterval monthId anchor 7
          | Biweekly \<Rightarrow> getDatesByInterval monthId anchor 14
          | Semimonthly \<Rightarrow> semimonthlyDates monthId
          | Monthly \<Rightarrow>
              (let fallbackDay = getDate (parseDate anchor)
               in [getMonthlyDate monthId (ri_day_rule item) fallbackDay])))"

definition recurring_transaction ::
  "string \<Rightarrow> RecurringItem \<Rightarrow> rat \<Rightarrow> string \<Rightarrow> int \<Rightarrow> string \<Rightarrow> Transaction" where
  "recurring_transaction uuid item amount date createdAt generatedBatchId =
     \<lparr>tx_id = uuid,
      tx_date = date,
      tx_amount = resolveAmount (ri_type item) amount,
      tx_account_id = ri_account_id item,
      tx_transfer_account_id = ri_transfer_account_id item,
      tx_transaction_type = Some (ri_type item),
      tx_category_id = ri_category_id item,
      tx_description = ri_name item,
      tx_notes = None,
      tx_loan_id = ri_loan_id item,
      tx_created_at = createdAt,
      tx_updated_at = createdAt,
      tx_source = Some Generated,
      tx_source_item_id = Some (''recurring:'' @ ri_id item @ '':'' @ date),
      tx_generated_batch_id = Some generatedBatchId\<rparr>"

definition item_transactions ::
  "Env \<Rightarrow> string \<Rightarrow> MonthSetup \<Rightarrow> nat \<Rightarrow> RecurringItem \<Rightarrow> Transaction list" where
  "item_transactions env monthId monthSetup calls item =
     (let amount = variable_amount (variable_overrides monthSetup) item;
          dates = item_dates monthId item
      in map (\<lambda>(k, date).
                recurring_transaction (randomUUID env k) item amount date (now_first env)
                  (randomUUID env 0))
           (enumerate calls
              (filter (\<lambda>date. truthy_str (ri_category_id item) \<and> truthy_str (ri_account_id item))
                 dates)))"

definition recurringTx :: "Env \<Rightarrow> string \<Rightarrow> MonthSetup \<Rightarrow> RecurringItem list \<Rightarrow> nat \<Rightarrow> Transaction list" where
  "recurringTx env monthId monthSetup recurringItems calls =
     flatMap_fresh (item_transactions env monthId monthSetup) calls
       (filter ri_enabled recurringItems)"

definition oneoff_transaction :: "string \<Rightarrow> OneOffAdjustment \<Rightarrow> int \<Rightarrow> string \<Rightarrow> Transaction" where
  "oneoff_transaction uuid adj createdAt generatedBatchId =
     \<lparr>tx_id = uuid,
      tx_date = oo_date adj,
      tx_amount = resolveAmount (oo_type adj) (oo_amount adj),
      tx_account_id = oo_account_id adj,
      tx_transfer_account_id = oo_transfer_account_id adj,
      tx_transaction_type = Some (oo_type adj),
      tx_category_id = oo_category_id adj,
      tx_description = (if oo_description adj \<noteq> [] then oo_description adj else ''One-off adjustment''),
      tx_notes = None,
      tx_loan_id = oo_loan_id adj,
      tx_created_at = createdAt,
      tx_updated_at = createdAt,
      tx_source = Some Generated,
      tx_source_item_id = Some (''oneoff:'' @ oo_id adj),
      tx_generated_batch_id = Some generatedBatchId\<rparr>"

definition oneOffTx :: "Env \<Rightarrow> MonthSetup \<Rightarrow> nat \<Rightarrow> Transaction list" where
  "oneOffTx env monthSetup calls =
     map (\<lambda>(k, adj). oneoff_transaction (randomUUID env k) adj (now_first env) (randomUUID env 0))
       (enumerate calls
          (filter (\<lambda>adj. truthy_str (oo_account_id adj) \<and> truthy_str (oo_category_id adj))
             (one_offs monthSetup)))"

definition generatedTransactions ::
  "Env \<Rightarrow> string \<Rightarrow> MonthSetup \<Rightarrow> RecurringItem list \<Rightarrow> Transaction list" where
  "generatedTransactions env monthId monthSetup recurringItems =
     (let pay = paycheckTx env monthId monthSetup;
          calls1 = calls_before_paychecks monthId monthSetup + length pay;
          rec = recurringTx env monthId monthSetup recurringItems calls1;
          calls2 = calls1 + length rec
      in pay @ rec @ oneOffTx env monthSetup calls2)"

record GenerateResult =
  transactions :: "Transaction list"
  month_setup :: MonthSetup

text \<open>
  \<^verbatim>\<open>new Set(existing.map(tx => tx.source_item_id).filter(Boolean))\<close>, as the list of its
  elements.
\<close>

definition existingIds :: "Transaction list \<Rightarrow> string option list" where
  "existingIds existingTransactions = filter truthy_opt (map tx_source_item_id existingTransactions)"

definition generateMonthTransactions ::
  "Env \<Rightarrow> string \<Rightarrow> MonthSetup \<Rightarrow> RecurringItem list \<Rightarrow> Transaction list \<Rightarrow> GenerateMode
     \<Rightarrow> GenerateResult" where
  "generateMonthTransactions env monthId monthSetup recurringItems existingTransactions mode =
     (let generated = generatedTransactions env monthId monthSetup recurringItems;
          nextTransactions =
            (case mode of
               Reset \<Rightarrow> generated
             | Regenerate \<Rightarrow>
                 filter (\<lambda>tx. tx_source tx \<noteq> Some Generated) existingTransactions @ generated
             | Missing \<Rightarrow>
                 (let ids = existingIds existingTransactions;
                      missing = filter (\<lambda>tx. tx_source_item_id tx \<notin> set ids) generated
                  in existingTransactions @ missing))
      in \<lparr>transactions = nextTransactions,
          month_setup = monthSetup\<lparr>last_generated_at := now_second env,
                                    generation_version := generation_version monthSetup + 1\<rparr>\<rparr>)"

section \<open>Auxiliary notions and example data for the generator\<close>

text \<open>
  A transaction the generator made carries the source tag \<open>generated\<close> and a non-empty
  \<open>source_item_id\<close>.
\<close>

definition is_generated :: "Transaction \<Rightarrow> bool" where
  "is_generated tx = (tx_source tx = Some Generated \<and> truthy_opt (tx_source_item_id tx))"

text \<open>\<^verbatim>\<open>txs.filter(tx => tx.source !== 'generated')\<close>\<close>

definition nongenerated :: "Transaction list \<Rightarrow> Transaction list" where
  "nongenerated txs = filter (\<lambda>tx. tx_source tx \<noteq> Some Generated) txs"

text \<open>The four fields the specification compares two generation runs on.\<close>

definition key_fields :: "Transaction \<Rightarrow> string \<times> rat \<times> string \<times> string option" where
  "key_fields tx = (tx_date tx, tx_amount tx, tx_account_id tx, tx_source_item_id tx)"

definition env0 :: Env where
  "env0 = \<lparr>randomUUID = (\<lambda>k. ''uuid-'' @ nat_to_string k), now_first = 1, now_second = 2\<rparr>"

definition march_estimate :: PaycheckEntry where
  "march_estimate =
     \<lparr>pe_id = ''e1'', pe_date = ''2024-03-15'', pe_amount = 1500,
      pe_is_bonus = Some False, pe_description = None\<rparr>"

text \<open>A month setup whose two fixed deposit splits both pay into account \<open>acc1\<close>.\<close>

definition setup_two_splits :: MonthSetup where
  "setup_two_splits =
     \<lparr>paycheck_schedule = Semimonthly,
      paycheck_anchor_date = ''2024-03-01'',
      paycheck_deposit_splits =
        [\<lparr>sp_id = ''s1'', sp_account_id = ''acc1'', sp_amount = 100, sp_is_remainder = Some False\<rparr>,
         \<lparr>sp_id = ''s2'', sp_account_id = ''acc1'', sp_amount = 200, sp_is_remainder = Some False\<rparr>],
      paycheck_category_id = ''cat0'',
      paycheck_default_amount = 1000,
      paycheck_estimates = Some [march_estimate],
      paycheck_overrides = [],
      variable_overrides = [],
      one_offs = [],
      last_generated_at = 0,
      generation_version = 0\<rparr>"

definition extra_override :: PaycheckEntry where
  "extra_override =
     \<lparr>pe_id = ''o1'', pe_date = ''2024-03-20'', pe_amount = 250,
      pe_is_bonus = None, pe_description = Some ''Side job''\<rparr>"

text \<open>
  A month setup with one stored estimate, one remainder split and one override on a date
  that carries no estimate.
\<close>

definition setup_extra_override :: MonthSetup where
  "setup_extra_override =
     \<lparr>paycheck_schedule = Semimonthly,
      paycheck_anchor_date = ''2024-03-01'',
      paycheck_deposit_splits =
        [\<lparr>sp_id = ''s1'', sp_account_id = ''acc1'', sp_amount = 0, sp_is_remainder = Some True\<rparr>],
      paycheck_category_id = ''cat0'',
      paycheck_default_amount = 1000,
      paycheck_estimates = Some [march_estimate],
      paycheck_overrides = [extra_override],
      variable_overrides = [],
      one_offs = [],
      last_generated_at = 0,
      generation_version = 0\<rparr>"

definition manual_tx :: Transaction where
  "manual_tx =
     \<lparr>tx_id = ''m1'', tx_date = ''2024-03-02'', tx_amount = - 40, tx_account_id = ''acc1'',
      tx_transfer_account_id = None, tx_transaction_type = Some Expense,
      tx_category_id = ''cat3'', tx_description = ''Groceries'', tx_notes = None,
      tx_loan_id = None, tx_created_at = 0, tx_updated_at = 0,
      tx_source = Some Manual, tx_source_item_id = None, tx_generated_batch_id = None\<rparr>"

definition old_generated_tx :: Transaction where
  "old_generated_tx =
     \<lparr>tx_id = ''g1'', tx_date = ''2024-03-15'', tx_amount = 1400, tx_account_id = ''acc1'',
      tx_transfer_account_id = None, tx_transaction_type = None,
      tx_category_id = ''cat0'', tx_description = ''Paycheck'', tx_notes = None,
      tx_loan_id = None, tx_created_at = 0, tx_updated_at = 0,
      tx_source = Some Generated, tx_source_item_id = Some ''paycheck:2024-03-15:acc1'',
      tx_generated_batch_id = Some ''b0''\<rparr>"




text \<open>Two paycheck entries that differ at most in their identifier.\<close>

definition same_entry :: "PaycheckEntry \<Rightarrow> PaycheckEntry \<Rightarrow> bool" where
  "same_entry a b =
     (pe_date a = pe_date b \<and> pe_amount a = pe_amount b \<and> pe_is_bonus a = pe_is_bonus b
      \<and> pe_description a = pe_description b)"

section \<open>The forecast simulator (src/lib/storage.ts, forecasting part)\<close>

text \<open>
  \<open>CreditCard\<close> is the legacy account type \<^verbatim>\<open>'credit_card'\<close> that stored data may still
  carry and \<^verbatim>\<open>normalizeAccounts\<close> rewrites; the declared type has the other four values.
\<close>

datatype AccountType = Checking | Savings | Investment | Loan | CreditCard

record Account =
  acc_id :: string
  acc_name :: string
  acc_type :: AccountType
  included_in_cash_forecast :: bool

record StartingBalance =
  sb_account_id :: string
  sb_amount :: rat

text \<open>The fields of a month snapshot that \<^verbatim>\<open>calculateForecast\<close> reads.\<close>

record MonthSnapshot =
  snap_id :: string
  accounts :: "Account list"
  snap_transactions :: "Transaction list"
  starting_balances :: "StartingBalance list"

record ForecastPoint =
  fp_date :: string
  balances :: "string \<rightharpoonup> rat"
  total_cash :: rat

text \<open>\<^verbatim>\<open>normalizeAccounts\<close> (the application shell, src/unnamed/part_003).\<close>

definition normalizeAccounts :: "Account list \<Rightarrow> Account list" where
  "normalizeAccounts accs =
     map (\<lambda>acc.
            if acc_type acc = CreditCard
            then acc\<lparr>acc_type := Loan, included_in_cash_forecast := False\<rparr>
            else if acc_type acc = Investment
            then acc\<lparr>included_in_cash_forecast := False\<rparr>
            else acc)
       accs"

text \<open>
  The initial balance map: one entry per account, the amount of the first starting balance
  recorded for it, or 0.
\<close>

definition initial_balances :: "Account list \<Rightarrow> StartingBalance list \<Rightarrow> (string \<rightharpoonup> rat)" where
  "initial_balances accs sbs =
     foldl (\<lambda>currentBalances acc.
              currentBalances(acc_id acc \<mapsto>
                (case find (\<lambda>sb. sb_account_id sb = acc_id acc) sbs of
                   Some starting \<Rightarrow> sb_amount starting
                 | None \<Rightarrow> 0)))
       Map.empty accs"

text \<open>\<^verbatim>\<open>if (currentBalances[id] !== undefined) currentBalances[id] += delta\<close>\<close>

definition add_if_present :: "(string \<rightharpoonup> rat) \<Rightarrow> string \<Rightarrow> rat \<Rightarrow> (string \<rightharpoonup> rat)" where
  "add_if_present currentBalances accountId delta =
     (case currentBalances accountId of
        None \<Rightarrow> currentBalances
      | Some v \<Rightarrow> currentBalances(accountId \<mapsto> v + delta))"

text \<open>The callback of \<^verbatim>\<open>dayTransactions.forEach\<close>.\<close>

definition apply_tx :: "(string \<rightharpoonup> rat) \<Rightarrow> Transaction \<Rightarrow> (string \<rightharpoonup> rat)" where
  "apply_tx currentBalances tx =
     (if (tx_transaction_type tx = Some Transfer \<or> truthy_opt (tx_transfer_account_id tx))
         \<and> truthy_opt (tx_transfer_account_id tx)
      then
        (let fromId = tx_account_id tx;
             toId = (case tx_transfer_account_id tx of Some t \<Rightarrow> t | None \<Rightarrow> []);
             amt = \<bar>tx_amount tx\<bar>
         in add_if_present (add_if_present currentBalances fromId (- amt)) toId amt)
      else add_if_present currentBalances (tx_account_id tx) (tx_amount tx))"

text \<open>The \<^verbatim>\<open>filter\<close> and \<^verbatim>\<open>reduce\<close> that compute \<^verbatim>\<open>cashAccountsTotal\<close>.\<close>

definition cash_accounts :: "Account list \<Rightarrow> Account list" where
  "cash_accounts accs =
     filter (\<lambda>acc. included_in_cash_forecast acc \<and> acc_type acc \<noteq> Investment) accs"

definition balance_or_zero :: "(string \<rightharpoonup> rat) \<Rightarrow> string \<Rightarrow> rat" where
  "balance_or_zero currentBalances accountId =
     (case currentBalances accountId of None \<Rightarrow> 0 | Some v \<Rightarrow> v)"

definition cashAccountsTotal :: "Account list \<Rightarrow> (string \<rightharpoonup> rat) \<Rightarrow> rat" where
  "cashAccountsTotal accs currentBalances =
     foldl (\<lambda>acc_sum acc. acc_sum + balance_or_zero currentBalances (acc_id acc)) 0
       (cash_accounts accs)"

text \<open>
  The body of the loop over the days: the balances are carried from one day to the next.
\<close>

fun forecast_days ::
  "string \<Rightarrow> Transaction list \<Rightarrow> Account list \<Rightarrow> (string \<rightharpoonup> rat) \<Rightarrow> int list \<Rightarrow> ForecastPoint list" where
  "forecast_days yearMonth sortedTx accs currentBalances [] = []"
| "forecast_days yearMonth sortedTx accs currentBalances (day # days) =
     (let dateStr = yearMonth @ ''-'' @ padStart2 (int_to_string day);
          dayTransactions = filter (\<lambda>tx. tx_date tx = dateStr) sortedTx;
          newBalances = foldl apply_tx currentBalances dayTransactions
      in \<lparr>fp_date = dateStr, balances = newBalances,
          total_cash = cashAccountsTotal accs newBalances\<rparr>
         # forecast_days yearMonth sortedTx accs newBalances days)"

text \<open>
  \<^verbatim>\<open>calculateForecast\<close>.  The sort is stable and by date; the days run from 1 to the number
  of days of the month, and not at all when that number is \<^verbatim>\<open>NaN\<close>.  (\<^verbatim>\<open>parseInt\<close> is
  called without a radix here; a \<^verbatim>\<open>0x\<close> prefix is outside the modelled inputs.)
\<close>

definition calculateForecast :: "MonthSnapshot \<Rightarrow> ForecastPoint list" where
  "calculateForecast snapshot =
     (let sortedTx = sort_key tx_date (snap_transactions snapshot);
          currentBalances = initial_balances (accounts snapshot) (starting_balances snapshot);
          yearMonth = snap_id snapshot;
          parts = split_on CHR ''-'' yearMonth;
          part = (\<lambda>k. if k < length parts then parseInt10 (parts ! k) else None);
          daysInMonth = getDate (MakeDate (part 0) (part 1) (Some 0))
      in (case daysInMonth of
            None \<Rightarrow> []
          | Some n \<Rightarrow> forecast_days yearMonth sortedTx (accounts snapshot) currentBalances [1..n]))"

text \<open>
  A month with a checking account and a loan account whose \<open>included_in_cash_forecast\<close>
  flag is set, as the account editor allows.
\<close>

definition loan_snapshot :: MonthSnapshot where
  "loan_snapshot =
     \<lparr>snap_id = ''2024-03'',
      accounts =
        [\<lparr>acc_id = ''acc1'', acc_name = ''Main Checking'', acc_type = Checking,
           included_in_cash_forecast = True\<rparr>,
         \<lparr>acc_id = ''acc2'', acc_name = ''Car loan'', acc_type = Loan,
           included_in_cash_forecast = True\<rparr>],
      snap_transactions = [],
      starting_balances =
        [\<lparr>sb_account_id = ''acc1'', sb_amount = 1000\<rparr>,
         \<lparr>sb_account_id = ''acc2'', sb_amount = - 5000\<rparr>]\<rparr>"

text \<open>An account counts towards the cash total.\<close>

definition cash_eligible :: "Account list \<Rightarrow> string \<Rightarrow> bool" where
  "cash_eligible accs accountId = (accountId \<in> set (map acc_id (cash_accounts accs)))"

definition transfer_tx :: Transaction where
  "transfer_tx =
     \<lparr>tx_id = ''t1'', tx_date = ''2024-03-10'', tx_amount = - 300, tx_account_id = ''acc1'',
      tx_transfer_account_id = Some ''acc2'', tx_transaction_type = Some Transfer,
      tx_category_id = ''cat9'', tx_description = ''To savings'', tx_notes = None,
      tx_loan_id = None, tx_created_at = 0, tx_updated_at = 0,
      tx_source = Some Manual, tx_source_item_id = None, tx_generated_batch_id = None\<rparr>"

definition two_cash_accounts :: "Account list" where
  "two_cash_accounts =
     [\<lparr>acc_id = ''acc1'', acc_name = ''Main Checking'', acc_type = Checking,
        included_in_cash_forecast = True\<rparr>,
      \<lparr>acc_id = ''acc2'', acc_name = ''Savings'', acc_type = Savings,
        included_in_cash_forecast = True\<rparr>]"

section \<open>The payroll engine (src/lib/payroll/engine.ts and types.ts)\<close>

datatype FilingStatus = Single | MarriedJoint | HeadOfHousehold

datatype ContributionMode = Percent | FixedPerPaycheck

datatype BonusWithholdingMethod = SupplementalFlat | RegularAnnualized

record Payroll401kSettings =
  k401_enabled :: bool
  contribution_mode :: ContributionMode
  contribution_value :: rat
  enforce_annual_max :: bool
  catch_up_enabled :: bool
  catch_up_amount_override :: "rat option"

record PayrollBenefitsSettings =
  pre_tax_benefits_per_paycheck :: rat
  post_tax_deductions_per_paycheck :: rat

record PayrollFicaSettings =
  include_fica :: bool
  ss_wage_base_override :: "rat option"
  additional_medicare_threshold_override :: "rat option"

record BonusEvent =
  be_id :: string
  be_date :: string
  gross_amount :: rat
  be_method :: BonusWithholdingMethod
  be_description :: "string option"

text \<open>
  The payroll settings the engine reads (\<^verbatim>\<open>tax_year\<close>, \<^verbatim>\<open>pay_cycle\<close> and the paycheck
  anchor and category of the settings are not read by it; schedule and anchor are
  arguments of the call).
\<close>

record PayrollSettings =
  filing_status :: FilingStatus
  salary_annual :: rat
  dependents_count :: rat
  dependent_credit_override :: "rat option"
  other_income_annual :: "rat option"
  deductions_annual :: "rat option"
  extra_withholding_per_paycheck :: "rat option"
  state_withholding_flat_rate :: "rat option"
  settings_401k :: Payroll401kSettings
  benefits :: PayrollBenefitsSettings
  fica_settings :: PayrollFicaSettings
  bonus_events :: "BonusEvent list"

datatype MedicareThreshold = ThresholdNumber rat | ThresholdByStatus "FilingStatus \<Rightarrow> rat"

record FicaConfig =
  ss_rate :: rat
  medicare_rate :: rat
  ss_wage_base :: rat
  additional_medicare_rate :: rat
  additional_medicare_threshold :: MedicareThreshold

record RetirementLimits =
  k401_employee_max :: rat
  k401_catch_up_max :: rat

record TaxTableSet =
  federal_income_tax_brackets :: "FilingStatus \<Rightarrow> TaxBracket list"
  standard_deduction :: "FilingStatus \<Rightarrow> rat"
  per_dependent_credit_amount :: rat
  federal_supplemental_withholding_rate :: "rat option"
  fica_config :: FicaConfig
  retirement :: RetirementLimits

text \<open>The running year-to-date variables of the loop, and the \<^verbatim>\<open>ytd\<close> object of a result.\<close>

record Ytd =
  ytdGross :: rat
  ytdTaxable :: rat
  ytd401k :: rat
  ytdSsWages :: rat
  ytdMedicareWages :: rat
  ytdFederal :: rat
  ytdFica :: rat
  ytdNet :: rat

record PayrollPaycheckResult =
  pc_id :: string
  pc_date :: string
  gross :: rat
  k401_contribution :: rat
  pre_tax_benefits :: rat
  taxable_wages :: rat
  federal_withholding :: rat
  state_withholding :: rat
  ss_withholding :: rat
  medicare_withholding :: rat
  additional_medicare_withholding :: rat
  fica_withholding :: rat
  post_tax_deductions :: rat
  net :: rat
  pc_is_bonus :: bool
  pc_bonus_method :: "BonusWithholdingMethod option"
  pc_description :: "string option"
  ytd :: Ytd

record PayrollEvent =
  ev_id :: string
  ev_date :: string
  ev_is_bonus :: bool
  ev_bonus_method :: "BonusWithholdingMethod option"
  ev_description :: "string option"
  gross_override :: "rat option"

text \<open>The state plug-in receives gross, taxable wages, filing status and date.\<close>

type_synonym StateTaxPlugin = "rat \<Rightarrow> rat \<Rightarrow> FilingStatus \<Rightarrow> string \<Rightarrow> rat"

record PayrollArgs =
  arg_monthId :: string
  arg_schedule :: Cadence
  arg_anchorDate :: string
  payrollSettings :: PayrollSettings
  taxTables :: TaxTableSet
  stateWithholding :: "StateTaxPlugin option"

text \<open>The engine's own \<^verbatim>\<open>getMonthlyDate\<close> takes the day as a number.\<close>

definition engine_getMonthlyDate :: "string \<Rightarrow> int option \<Rightarrow> string" where
  "engine_getMonthlyDate monthId day =
     (let daysInMonth = mi_daysInMonth (getMonthInfo monthId);
          clamped = js_min (js_max day (Some 1)) daysInMonth
      in monthId @ ''-'' @ padStart2 (num_to_string clamped))"

definition getPayDatesForMonth :: "string \<Rightarrow> Cadence \<Rightarrow> string \<Rightarrow> string list" where
  "getPayDatesForMonth monthId schedule anchorDate =
     (let info = getMonthInfo monthId
      in (case schedule of
            Weekly \<Rightarrow> datesByInterval (mi_start info) (mi_end info) (parseDate anchorDate) 7
          | Biweekly \<Rightarrow> datesByInterval (mi_start info) (mi_end info) (parseDate anchorDate) 14
          | Semimonthly \<Rightarrow>
              [monthId @ ''-15'', monthId @ ''-'' @ padStart2 (num_to_string (mi_daysInMonth info))]
          | Monthly \<Rightarrow>
              (let anchorDay = getDate (parseDate anchorDate)
               in [engine_getMonthlyDate monthId anchorDay])))"

definition getPayPeriodsPerYear :: "Cadence \<Rightarrow> rat" where
  "getPayPeriodsPerYear schedule =
     (case schedule of Weekly \<Rightarrow> 52 | Biweekly \<Rightarrow> 26 | Semimonthly \<Rightarrow> 24 | Monthly \<Rightarrow> 12)"

definition resolveAdditionalMedicareThreshold :: "MedicareThreshold \<Rightarrow> FilingStatus \<Rightarrow> rat" where
  "resolveAdditionalMedicareThreshold threshold filingStatus =
     (case threshold of ThresholdNumber n \<Rightarrow> n | ThresholdByStatus f \<Rightarrow> f filingStatus)"

text \<open>
  The month ids from January to the month of \<open>monthId\<close>; the loop bound is
  \<^verbatim>\<open>Number(monthId.split('-')[1])\<close> and the loop does not run when it is \<^verbatim>\<open>NaN\<close>.
\<close>

definition yearToDateMonths :: "string \<Rightarrow> string list" where
  "yearToDateMonths monthId =
     (let parts = split_on CHR ''-'' monthId;
          year = (case parts of y # rest \<Rightarrow> y | [] \<Rightarrow> [])
      in (case nth_num parts 1 of
            None \<Rightarrow> []
          | Some n \<Rightarrow> map (\<lambda>i. year @ ''-'' @ padStart2 (int_to_string i)) [1..n]))"

definition buildYearToDatePayDates :: "string \<Rightarrow> Cadence \<Rightarrow> string \<Rightarrow> string list" where
  "buildYearToDatePayDates monthId schedule anchorDate =
     concat (map (\<lambda>mid. getPayDatesForMonth mid schedule anchorDate) (yearToDateMonths monthId))"

text \<open>
  The comparator of the sort in \<^verbatim>\<open>buildPayrollEvents\<close>; \<^verbatim>\<open>localeCompare\<close> is taken as
  the order of the character codes, with which it agrees on ISO dates.
\<close>

definition compare_events :: "PayrollEvent \<Rightarrow> PayrollEvent \<Rightarrow> int" where
  "compare_events a b =
     (if ev_date a = ev_date b
      then (if ev_is_bonus a = ev_is_bonus b then 0 else if ev_is_bonus a then 1 else - 1)
      else if ev_date a < ev_date b then - 1 else 1)"

text \<open>\<^verbatim>\<open>Array.prototype.sort\<close> is stable; insertion from the right keeps equal elements in order.\<close>

fun insert_by :: "('a \<Rightarrow> 'a \<Rightarrow> int) \<Rightarrow> 'a \<Rightarrow> 'a list \<Rightarrow> 'a list" where
  "insert_by cmp x [] = [x]"
| "insert_by cmp x (y # ys) = (if cmp x y \<le> 0 then x # y # ys else y # insert_by cmp x ys)"

definition sort_by :: "('a \<Rightarrow> 'a \<Rightarrow> int) \<Rightarrow> 'a list \<Rightarrow> 'a list" where
  "sort_by cmp xs = foldr (insert_by cmp) xs []"

definition regular_event :: "string \<Rightarrow> PayrollEvent" where
  "regular_event date =
     \<lparr>ev_id = ''regular:'' @ date, ev_date = date, ev_is_bonus = False,
      ev_bonus_method = None, ev_description = None, gross_override = None\<rparr>"

definition bonus_event :: "BonusEvent \<Rightarrow> PayrollEvent" where
  "bonus_event event =
     \<lparr>ev_id = ''bonus:'' @ be_id event, ev_date = be_date event, ev_is_bonus = True,
      ev_bonus_method = Some (be_method event),
      ev_description = Some (case be_description event of
                               None \<Rightarrow> ''Bonus''
                             | Some d \<Rightarrow> if d \<noteq> [] then d else ''Bonus''),
      gross_override = Some (gross_amount event)\<rparr>"

definition bonusEventsInRange :: "string \<Rightarrow> BonusEvent list \<Rightarrow> PayrollEvent list" where
  "bonusEventsInRange monthId bonusEvents =
     map bonus_event (filter (\<lambda>event. take 7 (be_date event) \<le> monthId) bonusEvents)"

definition buildPayrollEvents :: "string \<Rightarrow> Cadence \<Rightarrow> string \<Rightarrow> BonusEvent list \<Rightarrow> PayrollEvent list" where
  "buildPayrollEvents monthId schedule anchorDate bonusEvents =
     (let payDates = buildYearToDatePayDates monthId schedule anchorDate;
          regularEvents = map regular_event payDates
      in sort_by compare_events (regularEvents @ bonusEventsInRange monthId bonusEvents))"

text \<open>\<^verbatim>\<open>x || 0\<close> and \<^verbatim>\<open>x ?? y\<close> on an optional number.\<close>

definition or_zero :: "rat option \<Rightarrow> rat" where
  "or_zero v = (case v of None \<Rightarrow> 0 | Some x \<Rightarrow> x)"

definition or_else :: "rat option \<Rightarrow> rat \<Rightarrow> rat" where
  "or_else v d = (case v of None \<Rightarrow> d | Some x \<Rightarrow> x)"

definition k401Max :: "PayrollArgs \<Rightarrow> rat" where
  "k401Max args =
     k401_employee_max (retirement (taxTables args))
     + (if catch_up_enabled (settings_401k (payrollSettings args))
        then or_else (catch_up_amount_override (settings_401k (payrollSettings args)))
               (k401_catch_up_max (retirement (taxTables args)))
        else 0)"

definition desired_contribution :: "PayrollArgs \<Rightarrow> rat \<Rightarrow> rat" where
  "desired_contribution args gross_pay =
     (if contribution_mode (settings_401k (payrollSettings args)) = Percent
      then gross_pay * (contribution_value (settings_401k (payrollSettings args)) / 100)
      else contribution_value (settings_401k (payrollSettings args)))"

definition grossPerPaycheck :: "PayrollArgs \<Rightarrow> rat" where
  "grossPerPaycheck args =
     salary_annual (payrollSettings args) / getPayPeriodsPerYear (arg_schedule args)"

text \<open>
  The body of \<^verbatim>\<open>events.forEach\<close>: from the running year-to-date values and one event to
  the updated values and the event's result.
\<close>

definition process_event :: "PayrollArgs \<Rightarrow> Ytd \<Rightarrow> PayrollEvent \<Rightarrow> Ytd \<times> PayrollPaycheckResult" where
  "process_event args st event =
     (let settings = payrollSettings args;
          tables = taxTables args;
          payPeriodsPerYear = getPayPeriodsPerYear (arg_schedule args);
          isBonus = ev_is_bonus event;
          gross_pay = (if isBonus then or_zero (gross_override event) else grossPerPaycheck args);
          k401Settings = settings_401k settings;
          k401Contribution =
            (if k401_enabled k401Settings \<and> \<not> isBonus
             then (let desired = desired_contribution args gross_pay
                   in if enforce_annual_max k401Settings
                      then (let remaining = max 0 (k401Max args - ytd401k st)
                            in min desired remaining)
                      else desired)
             else 0);
          preTaxBenefits = (if isBonus then 0 else pre_tax_benefits_per_paycheck (benefits settings));
          taxableWages = max 0 (gross_pay - k401Contribution - preTaxBenefits);
          standardDeduction = standard_deduction tables (filing_status settings);
          deductionsAnnual = or_zero (deductions_annual settings);
          otherIncomeAnnual = or_zero (other_income_annual settings);
          extraWithholding = (if isBonus then 0 else or_zero (extra_withholding_per_paycheck settings));
          federalWithholding =
            (if isBonus \<and> ev_bonus_method event = Some SupplementalFlat
             then taxableWages * or_zero (federal_supplemental_withholding_rate tables)
             else calculateFederalWithholding
                    \<lparr>taxableWagesPerPaycheck = taxableWages,
                     payPeriodsPerYear = payPeriodsPerYear,
                     standardDeduction = standardDeduction,
                     deductionsAnnual = deductionsAnnual,
                     otherIncomeAnnual = otherIncomeAnnual,
                     brackets = federal_income_tax_brackets tables (filing_status settings),
                     dependentCredit = per_dependent_credit_amount tables,
                     dependentsCount = dependents_count settings,
                     dependentCreditOverride = dependent_credit_override settings,
                     extraWithholdingPerPaycheck = extraWithholding\<rparr>);
          fica = fica_config tables;
          include = include_fica (fica_settings settings);
          ssWithholding =
            (if include
             then (let ssWageBase = or_else (ss_wage_base_override (fica_settings settings)) (ss_wage_base fica);
                       ssRemaining = max 0 (ssWageBase - ytdSsWages st);
                       ssTaxable = min gross_pay ssRemaining
                   in ssTaxable * ss_rate fica)
             else 0);
          medicareWithholding = (if include then gross_pay * medicare_rate fica else 0);
          additionalMedicareWithholding =
            (if include
             then (let threshold =
                         or_else (additional_medicare_threshold_override (fica_settings settings))
                           (resolveAdditionalMedicareThreshold (additional_medicare_threshold fica)
                              (filing_status settings));
                       medicareAboveThreshold =
                         max 0 (ytdMedicareWages st + gross_pay - threshold)
                         - max 0 (ytdMedicareWages st - threshold)
                   in medicareAboveThreshold * additional_medicare_rate fica)
             else 0);
          ficaWithholding = ssWithholding + medicareWithholding + additionalMedicareWithholding;
          flatStateRate = or_zero (state_withholding_flat_rate settings);
          stateResult =
            (case stateWithholding args of
               Some plugin \<Rightarrow> plugin gross_pay taxableWages (filing_status settings) (ev_date event)
             | None \<Rightarrow> taxableWages * (flatStateRate / 100));
          postTaxDeductions =
            (if isBonus then 0 else post_tax_deductions_per_paycheck (benefits settings));
          net_pay = gross_pay - k401Contribution - preTaxBenefits - federalWithholding - stateResult
                    - ficaWithholding - postTaxDeductions;
          st' = \<lparr>ytdGross = ytdGross st + gross_pay,
                 ytdTaxable = ytdTaxable st + taxableWages,
                 ytd401k = ytd401k st + k401Contribution,
                 ytdSsWages = ytdSsWages st + gross_pay,
                 ytdMedicareWages = ytdMedicareWages st + gross_pay,
                 ytdFederal = ytdFederal st + federalWithholding,
                 ytdFica = ytdFica st + ficaWithholding,
                 ytdNet = ytdNet st + net_pay\<rparr>
      in (st',
          \<lparr>pc_id = ev_id event,
           pc_date = ev_date event,
           gross = gross_pay,
           k401_contribution = k401Contribution,
           pre_tax_benefits = preTaxBenefits,
           taxable_wages = taxableWages,
           federal_withholding = federalWithholding,
           state_withholding = stateResult,
           ss_withholding = ssWithholding,
           medicare_withholding = medicareWithholding,
           additional_medicare_withholding = additionalMedicareWithholding,
           fica_withholding = ficaWithholding,
           post_tax_deductions = postTaxDeductions,
           net = net_pay,
           pc_is_bonus = isBonus,
           pc_bonus_method = ev_bonus_method event,
           pc_description = ev_description event,
           ytd = st'\<rparr>))"

definition ytd_zero :: Ytd where
  "ytd_zero =
     \<lparr>ytdGross = 0, ytdTaxable = 0, ytd401k = 0, ytdSsWages = 0, ytdMedicareWages = 0,
      ytdFederal = 0, ytdFica = 0, ytdNet = 0\<rparr>"

text \<open>\<^verbatim>\<open>date.startsWith(monthId)\<close>\<close>

definition startsWith :: "string \<Rightarrow> string \<Rightarrow> bool" where
  "startsWith s p = (take (length p) s = p)"

text \<open>
  One round of the loop with both of its effects: the year-to-date values move on, and the
  result is pushed when the event's date starts with the month id.
\<close>

definition loop_step ::
  "PayrollArgs \<Rightarrow> Ytd \<times> PayrollPaycheckResult list \<Rightarrow> PayrollEvent
     \<Rightarrow> Ytd \<times> PayrollPaycheckResult list" where
  "loop_step args acc event =
     (let (st', result) = process_event args (fst acc) event
      in (st', if startsWith (ev_date event) (arg_monthId args)
               then snd acc @ [result] else snd acc))"

definition payroll_events :: "PayrollArgs \<Rightarrow> PayrollEvent list" where
  "payroll_events args =
     buildPayrollEvents (arg_monthId args) (arg_schedule args) (arg_anchorDate args)
       (bonus_events (payrollSettings args))"

definition calculatePayrollForMonth :: "PayrollArgs \<Rightarrow> PayrollPaycheckResult list" where
  "calculatePayrollForMonth args =
     snd (foldl (loop_step args) (ytd_zero, []) (payroll_events args))"

text \<open>The results of all processed events, whether pushed or not.\<close>

fun process_events :: "PayrollArgs \<Rightarrow> Ytd \<Rightarrow> PayrollEvent list \<Rightarrow> PayrollPaycheckResult list" where
  "process_events args st [] = []"
| "process_events args st (event # events) =
     snd (process_event args st event)
     # process_events args (fst (process_event args st event)) events"

definition all_results :: "PayrollArgs \<Rightarrow> PayrollPaycheckResult list" where
  "all_results args = process_events args ytd_zero (payroll_events args)"

section \<open>Example payroll data\<close>

definition example_tables :: TaxTableSet where
  "example_tables =
     \<lparr>federal_income_tax_brackets = (\<lambda>status. [\<lparr>lowerBound = 0, upperBound = None, rate = 1 / 5\<rparr>]),
      standard_deduction = (\<lambda>status. 0),
      per_dependent_credit_amount = 0,
      federal_supplemental_withholding_rate = Some (22 / 100),
      fica_config =
        \<lparr>ss_rate = 62 / 1000, medicare_rate = 145 / 10000, ss_wage_base = 168600,
         additional_medicare_rate = 9 / 1000,
         additional_medicare_threshold = ThresholdNumber 200000\<rparr>,
      retirement = \<lparr>k401_employee_max = 6000, k401_catch_up_max = 1000\<rparr>\<rparr>"

definition example_settings :: PayrollSettings where
  "example_settings =
     \<lparr>filing_status = Single,
      salary_annual = 120000,
      dependents_count = 0,
      dependent_credit_override = None,
      other_income_annual = None,
      deductions_annual = None,
      extra_withholding_per_paycheck = None,
      state_withholding_flat_rate = None,
      settings_401k =
        \<lparr>k401_enabled = True, contribution_mode = Percent, contribution_value = 50,
         enforce_annual_max = True, catch_up_enabled = False, catch_up_amount_override = None\<rparr>,
      benefits = \<lparr>pre_tax_benefits_per_paycheck = 0, post_tax_deductions_per_paycheck = 0\<rparr>,
      fica_settings =
        \<lparr>include_fica = False, ss_wage_base_override = None,
         additional_medicare_threshold_override = None\<rparr>,
      bonus_events = []\<rparr>"

text \<open>February 2024, paid on the 15th and the last day, half of each paycheck to the 401(k).\<close>

definition february_args :: PayrollArgs where
  "february_args =
     \<lparr>arg_monthId = ''2024-02'', arg_schedule = Semimonthly, arg_anchorDate = ''2024-01-15'',
      payrollSettings = example_settings, taxTables = example_tables, stateWithholding = None\<rparr>"

text \<open>March 2024 with a bonus that was paid in December 2023 still in the settings.\<close>

definition march_args :: PayrollArgs where
  "march_args =
     \<lparr>arg_monthId = ''2024-03'', arg_schedule = Semimonthly, arg_anchorDate = ''2024-01-15'',
      payrollSettings = example_settings
        \<lparr>bonus_events :=
           [\<lparr>be_id = ''b1'', be_date = ''2023-12-15'', gross_amount = 10000,
             be_method = SupplementalFlat, be_description = None\<rparr>]\<rparr>,
      taxTables = example_tables, stateWithholding = None\<rparr>"

section \<open>Auxiliary notions for the payroll engine\<close>

text \<open>The year-to-date values after a prefix of the events.\<close>

definition state_after :: "PayrollArgs \<Rightarrow> Ytd \<Rightarrow> PayrollEvent list \<Rightarrow> Ytd" where
  "state_after args st events = foldl (\<lambda>s e. fst (process_event args s e)) st events"

text \<open>The 401(k) contributions of the first \<open>i\<close> results, summed.\<close>

definition k401_before :: "PayrollPaycheckResult list \<Rightarrow> nat \<Rightarrow> rat" where
  "k401_before rs i = sum_list (map k401_contribution (take i rs))"

section \<open>Auxiliary notions for the monthly date\<close>

text \<open>The text \<^verbatim>\<open>getMonthlyDate\<close> hands to \<^verbatim>\<open>parseInt\<close>: the rule without a \<^verbatim>\<open>day:\<close> prefix.\<close>

definition day_rule_raw :: "string \<Rightarrow> string" where
  "day_rule_raw dayRule = (if take 4 dayRule = ''day:'' then drop 4 dayRule else dayRule)"

text \<open>
  The day number \<^verbatim>\<open>getMonthlyDate\<close> reads from a rule: the finite number \<^verbatim>\<open>parseInt\<close>
  finds at the start of the rule after an optional \<^verbatim>\<open>day:\<close> prefix, if there is one.
\<close>

definition parsed_day :: "string \<Rightarrow> int option" where
  "parsed_day dayRule =
     (case parseInt10 (day_rule_raw dayRule) of
        Some n \<Rightarrow> if js_finite n then Some n else None
      | None \<Rightarrow> None)"

text \<open>A day clamped to the range from 1 to the number of days of the month.\<close>

definition clamp_day :: "int \<Rightarrow> int \<Rightarrow> int" where
  "clamp_day day daysInMonth = min (max day 1) daysInMonth"

text \<open>The date of a day of a month: the month id, a hyphen and the day on two digits.\<close>

definition month_day :: "string \<Rightarrow> int \<Rightarrow> string" where
  "month_day monthId d = monthId @ ''-'' @ padStart2 (int_to_string d)"

definition rent_item :: RecurringItem where
  "rent_item =
     \<lparr>ri_id = ''r1'', ri_name = ''Rent'', ri_category_id = ''cat2'', ri_account_id = ''acc1'',
      ri_transfer_account_id = None, ri_loan_id = None, ri_cadence = Monthly,
      ri_default_amount = 1200, ri_day_rule = ''31'', ri_type = Expense, ri_enabled = True,
      ri_anchor_date = None\<rparr>"

section \<open>Example data for the scenarios of the specification\<close>

definition checking_only :: "Account list" where
  "checking_only =
     [\<lparr>acc_id = ''acc1'', acc_name = ''Checking'', acc_type = Checking,
        included_in_cash_forecast = True\<rparr>]"

definition setup_no_paycheck :: MonthSetup where
  "setup_no_paycheck =
     \<lparr>paycheck_schedule = Monthly,
      paycheck_anchor_date = ''2024-03-01'',
      paycheck_deposit_splits = [],
      paycheck_category_id = [],
      paycheck_default_amount = 0,
      paycheck_estimates = None,
      paycheck_overrides = [],
      variable_overrides = [],
      one_offs = [],
      last_generated_at = 0,
      generation_version = 0\<rparr>"

definition rent_snapshot :: MonthSnapshot where
  "rent_snapshot =
     \<lparr>snap_id = ''2024-03'',
      accounts = checking_only,
      snap_transactions =
        transactions (generateMonthTransactions env0 ''2024-03'' setup_no_paycheck
                        [rent_item\<lparr>ri_day_rule := ''1''\<rparr>] [] Reset),
      starting_balances = [\<lparr>sb_account_id = ''acc1'', sb_amount = 1000\<rparr>]\<rparr>"

definition biweekly_args :: PayrollArgs where
  "biweekly_args =
     \<lparr>arg_monthId = ''2024-01'', arg_schedule = Biweekly, arg_anchorDate = ''2024-01-05'',
      payrollSettings = example_settings
        \<lparr>settings_401k :=
           \<lparr>k401_enabled = False, contribution_mode = Percent, contribution_value = 0,
            enforce_annual_max = True, catch_up_enabled = False, catch_up_amount_override = None\<rparr>\<rparr>,
      taxTables = example_tables, stateWithholding = None\<rparr>"

text \<open>The comparator says that one event does not come after another.\<close>

definition event_le :: "PayrollEvent \<Rightarrow> PayrollEvent \<Rightarrow> bool" where
  "event_le a b = (compare_events a b \<le> 0)"

section \<open>Properties of the withholding calculator\<close>

lemma foldl_tax_step:
  "foldl (tax_step income) acc bs = acc + spec_progressive_tax income bs"
  by (induction bs arbitrary: acc)
     (auto simp: tax_step_def spec_progressive_tax_def spec_bracket_portion_def Let_def)

lemma spec_portion_nonpos_income:
  assumes "income \<le> 0" and "0 \<le> lowerBound b"
  shows "spec_bracket_portion income b = 0"
  using assms by (cases "upperBound b") (auto simp: spec_bracket_portion_def min_upper_def)

lemma spec_progressive_tax_nonpos_income:
  assumes "income \<le> 0" and "\<forall>b\<in>set bs. 0 \<le> lowerBound b"
  shows "spec_progressive_tax income bs = 0"
  using assms
  by (induction bs) (auto simp: spec_progressive_tax_def spec_portion_nonpos_income)

text \<open>
  Claim C1, as the specification words it, fails on its own example: on the brackets
  \<open>[{0, 10000, 0.10}, {10000, null, 0.20}]\<close> and a taxable income of 15000 the function does
  not return 1500.
\<close>

theorem calculateAnnualTax_example_not_1500:
  "calculateAnnualTax 15000
     [\<lparr>lowerBound = 0, upperBound = Some 10000, rate = 1 / 10\<rparr>,
      \<lparr>lowerBound = 10000, upperBound = None, rate = 2 / 10\<rparr>] \<noteq> 1500"
  by (simp add: calculateAnnualTax_def tax_step_def min_upper_def)

text \<open>
  Claim C1, amended: \<open>calculateAnnualTax\<close> is progressive marginal-bracket taxation.  For a
  positive taxable income, or for brackets whose lower bounds are not negative, the result
  is the sum over the brackets of the portion of the income between the bracket's lower bound
  and the smaller of its upper bound (or infinity) and the income, times the bracket's rate.
  On the example brackets and income 15000 this is 10000 * 0.10 + 5000 * 0.20 = 2000, which is
  not the single-rate figure 15000 * 0.20 = 3000.
\<close>

theorem calculateAnnualTax_progressive:
  assumes "0 < income \<or> (\<forall>b\<in>set bs. 0 \<le> lowerBound b)"
  shows "calculateAnnualTax income bs = spec_progressive_tax income bs
       \<and> calculateAnnualTax 15000 example_brackets = 10000 * (1 / 10) + 5000 * (2 / 10)
       \<and> calculateAnnualTax 15000 example_brackets = 2000
       \<and> calculateAnnualTax 15000 example_brackets \<noteq> 15000 * (2 / 10)"
proof -
  have general: "calculateAnnualTax income bs = spec_progressive_tax income bs"
  proof (cases "income \<le> 0")
    case True
    with assms have "\<forall>b\<in>set bs. 0 \<le> lowerBound b" by auto
    with True show ?thesis
      by (simp add: calculateAnnualTax_def spec_progressive_tax_nonpos_income)
  next
    case False
    then show ?thesis by (simp add: calculateAnnualTax_def foldl_tax_step)
  qed
  have example: "calculateAnnualTax 15000 example_brackets = 2000"
    by (simp add: calculateAnnualTax_def example_brackets_def tax_step_def min_upper_def)
  from general example show ?thesis by simp
qed

theorem calculateAnnualTax_progressive_witness:
  "calculateAnnualTax 50000
     [\<lparr>lowerBound = 0, upperBound = Some 10000, rate = 1 / 10\<rparr>,
      \<lparr>lowerBound = 10000, upperBound = Some 40000, rate = 2 / 10\<rparr>,
      \<lparr>lowerBound = 40000, upperBound = None, rate = 3 / 10\<rparr>] = 10000"
  using calculateAnnualTax_progressive [of 50000
     "[\<lparr>lowerBound = 0, upperBound = Some 10000, rate = 1 / 10\<rparr>,
       \<lparr>lowerBound = 10000, upperBound = Some 40000, rate = 2 / 10\<rparr>,
       \<lparr>lowerBound = 40000, upperBound = None, rate = 3 / 10\<rparr>]"]
  by (simp add: spec_progressive_tax_def spec_bracket_portion_def min_upper_def)

section \<open>Properties of the transaction generator\<close>

lemma set_flatMap_fresh:
  "tx \<in> set (flatMap_fresh f n xs) \<Longrightarrow> \<exists>m x. x \<in> set xs \<and> tx \<in> set (f m x)"
proof (induction xs arbitrary: n)
  case Nil
  then show ?case by simp
next
  case (Cons a xs)
  from Cons.prems have "tx \<in> set (f n a) \<or> tx \<in> set (flatMap_fresh f (n + length (f n a)) xs)"
    by (simp add: Let_def)
  then show ?case
  proof
    assume "tx \<in> set (f n a)"
    then show ?thesis by auto
  next
    assume "tx \<in> set (flatMap_fresh f (n + length (f n a)) xs)"
    from Cons.IH [OF this] show ?thesis by auto
  qed
qed


lemma split_transaction_generated:
  "is_generated (split_transaction u e ms c b amt acc)"
  by (simp add: is_generated_def split_transaction_def truthy_opt_def entry_kind_def)

lemma build_generated:
  "tx \<in> set (buildPaycheckSplitTransactions env n e splits ms c b) \<Longrightarrow> is_generated tx"
  by (auto simp: buildPaycheckSplitTransactions_def Let_def split_transaction_generated
      split: if_splits option.splits)

lemma item_generated:
  "tx \<in> set (item_transactions env m ms n item) \<Longrightarrow> is_generated tx"
  by (auto simp: item_transactions_def Let_def is_generated_def recurring_transaction_def truthy_opt_def)

lemma oneoff_generated:
  "tx \<in> set (oneOffTx env ms n) \<Longrightarrow> is_generated tx"
  by (auto simp: oneOffTx_def Let_def is_generated_def oneoff_transaction_def truthy_opt_def)

lemma generated_is_generated:
  "tx \<in> set (generatedTransactions env m ms items) \<Longrightarrow> is_generated tx"
  by (auto simp: generatedTransactions_def Let_def paycheckTx_def recurringTx_def
      dest!: set_flatMap_fresh dest: build_generated item_generated oneoff_generated)

lemma nongenerated_generated:
  "nongenerated (generatedTransactions env m ms items) = []"
  by (auto simp: nongenerated_def filter_empty_conv is_generated_def dest!: generated_is_generated)

text \<open>
  Claim C3: in \<open>missing\<close> mode the result is the list of existing transactions, unchanged
  and in place, followed only by transactions of the freshly generated set whose
  \<open>source_item_id\<close> no existing transaction carries; in \<open>regenerate\<close> mode the result is
  the existing transactions whose source is not \<open>generated\<close>, unchanged, followed by
  generated transactions only, so the transactions that are not generated are the same
  before and after.
\<close>

theorem generate_keeps_existing:
  "(\<exists>added.
      transactions (generateMonthTransactions env monthId ms items existing Missing) = existing @ added
      \<and> (\<forall>tx\<in>set added.
            tx \<in> set (generatedTransactions env monthId ms items)
            \<and> tx_source tx = Some Generated
            \<and> tx_source_item_id tx \<notin> tx_source_item_id ` set existing))
   \<and> (\<exists>fresh.
        transactions (generateMonthTransactions env monthId ms items existing Regenerate)
          = nongenerated existing @ fresh
        \<and> nongenerated fresh = [])
   \<and> nongenerated (transactions (generateMonthTransactions env monthId ms items existing Regenerate))
       = nongenerated existing"
proof -
  let ?gen = "generatedTransactions env monthId ms items"
  let ?added = "filter (\<lambda>tx. tx_source_item_id tx \<notin> set (existingIds existing)) ?gen"
  have missing: "transactions (generateMonthTransactions env monthId ms items existing Missing)
      = existing @ ?added"
    by (simp add: generateMonthTransactions_def Let_def)
  have added: "tx \<in> set (generatedTransactions env monthId ms items)
        \<and> tx_source tx = Some Generated
        \<and> tx_source_item_id tx \<notin> tx_source_item_id ` set existing"
    if "tx \<in> set ?added" for tx
  proof -
    from that have mem: "tx \<in> set ?gen" and new: "tx_source_item_id tx \<notin> set (existingIds existing)"
      by auto
    from mem have gen: "is_generated tx" by (rule generated_is_generated)
    have "tx_source_item_id tx \<notin> tx_source_item_id ` set existing"
    proof
      assume "tx_source_item_id tx \<in> tx_source_item_id ` set existing"
      with gen have "tx_source_item_id tx \<in> set (existingIds existing)"
        by (auto simp: existingIds_def is_generated_def)
      with new show False by contradiction
    qed
    with mem gen show ?thesis by (simp add: is_generated_def)
  qed
  have regen: "transactions (generateMonthTransactions env monthId ms items existing Regenerate)
      = nongenerated existing @ ?gen"
    by (simp add: generateMonthTransactions_def Let_def nongenerated_def)
  have kept: "nongenerated (nongenerated existing @ ?gen) = nongenerated existing"
    using nongenerated_generated [of env monthId ms items] by (simp add: nongenerated_def)
  from missing added have "\<exists>added.
      transactions (generateMonthTransactions env monthId ms items existing Missing) = existing @ added
      \<and> (\<forall>tx\<in>set added.
            tx \<in> set (generatedTransactions env monthId ms items)
            \<and> tx_source tx = Some Generated
            \<and> tx_source_item_id tx \<notin> tx_source_item_id ` set existing)"
    by blast
  moreover from regen nongenerated_generated have "\<exists>fresh.
        transactions (generateMonthTransactions env monthId ms items existing Regenerate)
          = nongenerated existing @ fresh
        \<and> nongenerated fresh = []"
    by blast
  moreover from regen kept
  have "nongenerated (transactions (generateMonthTransactions env monthId ms items existing Regenerate))
       = nongenerated existing"
    by simp
  ultimately show ?thesis by blast
qed

theorem generate_keeps_existing_witness:
  "take 2 (transactions (generateMonthTransactions env0 ''2024-03'' setup_extra_override []
             [manual_tx, old_generated_tx] Missing)) = [manual_tx, old_generated_tx]
   \<and> nongenerated (transactions (generateMonthTransactions env0 ''2024-03'' setup_extra_override []
             [manual_tx, old_generated_tx] Regenerate)) = [manual_tx]"
proof -
  have "nongenerated [manual_tx, old_generated_tx] = [manual_tx]"
    by (simp add: nongenerated_def manual_tx_def old_generated_tx_def)
  with generate_keeps_existing [of env0 "''2024-03''" setup_extra_override "[]"
      "[manual_tx, old_generated_tx]"]
  show ?thesis by auto
qed










text \<open>
  Claim C8 at a month setup whose two deposit splits pay into the same account: one run
  emits two generated transactions, both with the key \<open>paycheck:2024-03-15:acc1\<close>.
\<close>

theorem two_splits_same_account_share_key:
  "map tx_source_item_id (generatedTransactions env ''2024-03'' setup_two_splits [])
     = [Some ''paycheck:2024-03-15:acc1'', Some ''paycheck:2024-03-15:acc1'']
   \<and> \<not> distinct (map tx_source_item_id (generatedTransactions env ''2024-03'' setup_two_splits []))"
proof -
  have "map tx_source_item_id (generatedTransactions env ''2024-03'' setup_two_splits [])
     = [Some ''paycheck:2024-03-15:acc1'', Some ''paycheck:2024-03-15:acc1'']"
    by (simp add: generatedTransactions_def paycheckTx_def recurringTx_def oneOffTx_def
        setup_two_splits_def march_estimate_def paycheckEntries_def baseEntries_def
        extraOverrides_def estimateEntries_def overridesByKey_get_def
        buildPaycheckSplitTransactions_def truthy_str_def truthy_flag_def
        split_transaction_def entry_kind_def Let_def)
  then show ?thesis by simp
qed

lemma map_enumerate_const:
  assumes "\<And>k x. g (f k x) = h x"
  shows "map (g \<circ> (\<lambda>(k, x). f k x)) (enumerate n xs) = map h xs"
  using assms by (induction xs arbitrary: n) simp_all

lemma list_all2_map_enumerate:
  assumes "\<And>k k' x. R (f k x) (f' k' x)"
  shows "list_all2 R (map (\<lambda>(k, x). f k x) (enumerate n xs)) (map (\<lambda>(k, x). f' k x) (enumerate n' xs))"
  using assms by (induction xs arbitrary: n n') simp_all

lemma same_entry_refl: "list_all2 same_entry xs xs"
  by (simp add: list_all2_refl same_entry_def)

lemma estimateEntries_rel:
  "list_all2 same_entry (estimateEntries env m ms) (estimateEntries env' m ms)"
proof -
  have fallback: "list_all2 same_entry
      (map (\<lambda>(k, date). \<lparr>pe_id = randomUUID env k, pe_date = date,
                      pe_amount = paycheck_default_amount ms,
                      pe_is_bonus = Some False, pe_description = None\<rparr>) (enumerate n ds))
      (map (\<lambda>(k, date). \<lparr>pe_id = randomUUID env' k, pe_date = date,
                      pe_amount = paycheck_default_amount ms,
                      pe_is_bonus = Some False, pe_description = None\<rparr>) (enumerate n ds))" for ds n
    by (rule list_all2_map_enumerate) (simp add: same_entry_def)
  show ?thesis
    by (cases "paycheck_estimates ms")
       (auto simp: estimateEntries_def Let_def fallback same_entry_refl same_entry_def
          split: list.splits)
qed

lemma same_entry_buildKey: "same_entry a b \<Longrightarrow> buildKey a = buildKey b"
  by (simp add: same_entry_def buildKey_def)

lemma same_entry_spread: "same_entry a b \<Longrightarrow> same_entry (spread_override a ov) (spread_override b ov)"
  by (auto simp: same_entry_def spread_override_def split: option.splits)

lemma baseEntries_rel:
  "list_all2 same_entry (baseEntries env m ms) (baseEntries env' m ms)"
  unfolding baseEntries_def
  using estimateEntries_rel [of env m ms env']
  by (auto simp: list_all2_map1 list_all2_map2 same_entry_buildKey same_entry_spread
      split: option.splits elim!: list_all2_mono)

lemma rel_map_buildKey:
  "list_all2 same_entry xs ys \<Longrightarrow> map buildKey xs = map buildKey ys"
  by (induction rule: list_all2_induct) (simp_all add: same_entry_buildKey)

lemma find_None_keys:
  "(find (\<lambda>e. buildKey e = k) xs = None) = (k \<notin> set (map buildKey xs))"
  by (auto simp: find_None_iff)

lemma extraOverrides_eq:
  "extraOverrides env m ms = extraOverrides env' m ms"
  unfolding extraOverrides_def find_None_keys
  using rel_map_buildKey [OF estimateEntries_rel [of env m ms env']] by simp

lemma paycheckEntries_rel:
  "list_all2 same_entry (paycheckEntries env m ms) (paycheckEntries env' m ms)"
  unfolding paycheckEntries_def
  by (intro list_all2_appendI baseEntries_rel) (simp add: extraOverrides_eq [of env m ms env'] same_entry_refl)

lemma filter_rel:
  "list_all2 same_entry xs ys \<Longrightarrow>
   list_all2 same_entry (filter (\<lambda>e. pe_amount e \<noteq> 0) xs) (filter (\<lambda>e. pe_amount e \<noteq> 0) ys)"
  by (induction rule: list_all2_induct) (auto simp: same_entry_def)

lemma key_fields_split:
  "same_entry a b \<Longrightarrow>
   key_fields (split_transaction u a ms c bid amt acc) = key_fields (split_transaction u' b ms c' bid' amt acc)"
  by (simp add: key_fields_def split_transaction_def same_entry_def entry_kind_def)

lemma build_keys:
  assumes "same_entry a b"
  shows "map key_fields (buildPaycheckSplitTransactions env n a splits ms c bid)
       = map key_fields (buildPaycheckSplitTransactions env' n' b splits ms c' bid')"
proof -
  have fixed: "map (key_fields \<circ> (\<lambda>(k, split).
        split_transaction (randomUUID e k) x ms cc bb (sp_amount split) (sp_account_id split)))
        (enumerate nn xs)
     = map (\<lambda>split. key_fields (split_transaction [] a ms 0 [] (sp_amount split) (sp_account_id split))) xs"
    if "same_entry x a" for e :: Env and x cc bb nn and xs :: "PaycheckDepositSplit list"
    by (rule map_enumerate_const) (rule key_fields_split [OF that])
  have amount: "pe_amount a = pe_amount b" using assms by (simp add: same_entry_def)
  have aa: "same_entry a a" by (simp add: same_entry_def)
  have ba: "same_entry b a" using assms by (simp add: same_entry_def)
  show ?thesis
    unfolding buildPaycheckSplitTransactions_def Let_def
    by (simp add: fixed [OF aa] fixed [OF ba] amount key_fields_split [OF assms] split: option.splits)
qed

lemma flatMap_fresh_keys:
  assumes "list_all2 R xs ys"
    and "\<And>n m x y. R x y \<Longrightarrow> map g (f n x) = map g (f' m y)"
  shows "map g (flatMap_fresh f n xs) = map g (flatMap_fresh f' m ys)"
  using assms(1)
proof (induction arbitrary: n m rule: list_all2_induct)
  case Nil
  then show ?case by simp
next
  case (Cons x xs y ys)
  from assms(2) [OF Cons.hyps(1)] have "map g (f n x) = map g (f' m y)" .
  with Cons.IH show ?case by (simp add: Let_def)
qed

lemma paycheckTx_keys:
  "map key_fields (paycheckTx env m ms) = map key_fields (paycheckTx env' m ms)"
  unfolding paycheckTx_def
  by (rule flatMap_fresh_keys [OF filter_rel [OF paycheckEntries_rel]]) (rule build_keys)

lemma item_keys:
  "map key_fields (item_transactions env m ms n item) = map key_fields (item_transactions env' m ms n' item)"
proof -
  have aux: "map (key_fields \<circ> (\<lambda>(k, date). recurring_transaction (randomUUID e k) item amt date c bid))
          (enumerate nn ds)
      = map (\<lambda>date. key_fields (recurring_transaction [] item amt date 0 [])) ds" for e :: Env and amt c bid nn ds
    by (rule map_enumerate_const) (simp add: key_fields_def recurring_transaction_def)
  show ?thesis by (simp add: item_transactions_def Let_def aux)
qed

lemma recurringTx_keys:
  "map key_fields (recurringTx env m ms items n) = map key_fields (recurringTx env' m ms items n')"
  unfolding recurringTx_def
  by (rule flatMap_fresh_keys [where R = "(=)"]) (simp_all add: list_all2_refl item_keys)

lemma oneOffTx_keys:
  "map key_fields (oneOffTx env ms n) = map key_fields (oneOffTx env' ms n')"
proof -
  have aux: "map (key_fields \<circ> (\<lambda>(k, adj). oneoff_transaction (randomUUID e k) adj c bid)) (enumerate nn xs)
      = map (\<lambda>adj. key_fields (oneoff_transaction [] adj 0 [])) xs" for e :: Env and c bid nn xs
    by (rule map_enumerate_const) (simp add: key_fields_def oneoff_transaction_def)
  show ?thesis by (simp add: oneOffTx_def aux)
qed

lemma generated_keys:
  "map key_fields (generatedTransactions env m ms items) = map key_fields (generatedTransactions env' m ms items)"
proof -
  let ?c = "calls_before_paychecks m ms"
  let ?n1 = "?c + length (paycheckTx env m ms)"
  let ?n1' = "?c + length (paycheckTx env' m ms)"
  let ?n2 = "?n1 + length (recurringTx env m ms items ?n1)"
  let ?n2' = "?n1' + length (recurringTx env' m ms items ?n1')"
  have "map key_fields (generatedTransactions env m ms items)
      = map key_fields (paycheckTx env m ms) @ map key_fields (recurringTx env m ms items ?n1)
        @ map key_fields (oneOffTx env ms ?n2)"
    by (simp add: generatedTransactions_def Let_def)
  also have "\<dots> = map key_fields (paycheckTx env' m ms) @ map key_fields (recurringTx env' m ms items ?n1')
        @ map key_fields (oneOffTx env' ms ?n2')"
    by (simp only: paycheckTx_keys [of env m ms env'] recurringTx_keys [of env m ms items ?n1 env' ?n1']
        oneOffTx_keys [of env ms ?n2 env' ?n2'])
  also have "\<dots> = map key_fields (generatedTransactions env' m ms items)"
    by (simp add: generatedTransactions_def Let_def)
  finally show ?thesis .
qed

lemma estimateEntries_stamp:
  "estimateEntries env m (ms\<lparr>last_generated_at := t, generation_version := v\<rparr>) = estimateEntries env m ms"
  by (simp add: estimateEntries_def Let_def cong: option.case_cong list.case_cong)

lemma calls_before_stamp:
  "calls_before_paychecks m (ms\<lparr>last_generated_at := t, generation_version := v\<rparr>)
     = calls_before_paychecks m ms"
  by (simp add: calls_before_paychecks_def cong: option.case_cong list.case_cong)

lemma paycheckEntries_stamp:
  "paycheckEntries env m (ms\<lparr>last_generated_at := t, generation_version := v\<rparr>) = paycheckEntries env m ms"
  by (simp add: paycheckEntries_def baseEntries_def extraOverrides_def estimateEntries_stamp)

lemma build_stamp:
  "buildPaycheckSplitTransactions env n e splits (ms\<lparr>last_generated_at := t, generation_version := v\<rparr>) c b
     = buildPaycheckSplitTransactions env n e splits ms c b"
  by (simp add: buildPaycheckSplitTransactions_def split_transaction_def Let_def
      cong: if_cong option.case_cong)

lemma paycheckTx_stamp:
  "paycheckTx env m (ms\<lparr>last_generated_at := t, generation_version := v\<rparr>) = paycheckTx env m ms"
  by (simp add: paycheckTx_def paycheckEntries_stamp calls_before_stamp build_stamp)

lemma recurringTx_stamp:
  "recurringTx env m (ms\<lparr>last_generated_at := t, generation_version := v\<rparr>) items n
     = recurringTx env m ms items n"
proof -
  have "item_transactions env m (ms\<lparr>last_generated_at := t, generation_version := v\<rparr>)
      = item_transactions env m ms"
    by (intro ext) (simp add: item_transactions_def Let_def)
  then show ?thesis by (simp add: recurringTx_def)
qed

lemma oneOffTx_stamp:
  "oneOffTx env (ms\<lparr>last_generated_at := t, generation_version := v\<rparr>) n = oneOffTx env ms n"
  by (simp add: oneOffTx_def)

lemma generated_setup_stamp:
  "generatedTransactions env m (ms\<lparr>last_generated_at := t, generation_version := v\<rparr>) items
     = generatedTransactions env m ms items"
  by (simp add: generatedTransactions_def paycheckTx_stamp recurringTx_stamp oneOffTx_stamp
      calls_before_stamp)

text \<open>
  Claim C2: two runs in \<open>regenerate\<close> mode on the same month, setup, recurring items and
  existing transactions return transaction lists that agree, position by position, in date,
  amount, account and \<open>source_item_id\<close>, whatever identifiers and clock readings each run
  draws.  The same holds when the second run starts from the first run's result (its
  transactions and its stamped month setup).
\<close>

theorem regenerate_idempotent:
  "map key_fields (transactions (generateMonthTransactions env monthId ms items existing Regenerate))
     = map key_fields (transactions (generateMonthTransactions env' monthId ms items existing Regenerate))
   \<and> map key_fields
         (transactions
            (generateMonthTransactions env' monthId
               (month_setup (generateMonthTransactions env monthId ms items existing Regenerate)) items
               (transactions (generateMonthTransactions env monthId ms items existing Regenerate))
               Regenerate))
     = map key_fields (transactions (generateMonthTransactions env monthId ms items existing Regenerate))"
proof -
  let ?gen = "generatedTransactions env monthId ms items"
  let ?gen' = "generatedTransactions env' monthId ms items"
  have first: "transactions (generateMonthTransactions e monthId ms items existing Regenerate)
      = nongenerated existing @ generatedTransactions e monthId ms items" for e
    by (simp add: generateMonthTransactions_def Let_def nongenerated_def)
  have keys: "map key_fields ?gen = map key_fields ?gen'"
    by (rule generated_keys)
  have again: "transactions
            (generateMonthTransactions env' monthId
               (month_setup (generateMonthTransactions env monthId ms items existing Regenerate)) items
               (transactions (generateMonthTransactions env monthId ms items existing Regenerate))
               Regenerate)
      = nongenerated (nongenerated existing @ ?gen) @ ?gen'"
    by (simp add: generateMonthTransactions_def Let_def nongenerated_def generated_setup_stamp)
  have kept: "nongenerated (nongenerated existing @ ?gen) = nongenerated existing"
    using nongenerated_generated [of env monthId ms items] by (simp add: nongenerated_def)
  from first keys again kept show ?thesis by simp
qed

section \<open>Properties of the forecast simulator\<close>

lemma foldl_add_sum_list:
  "foldl (\<lambda>s x. s + g x) (a::rat) xs = a + sum_list (map g xs)"
  by (induction xs arbitrary: a) simp_all

lemma cashAccountsTotal_sum:
  "cashAccountsTotal accs bal = sum_list (map (\<lambda>acc. balance_or_zero bal (acc_id acc)) (cash_accounts accs))"
  by (simp add: cashAccountsTotal_def foldl_add_sum_list)

lemma shifted_sum:
  fixes f g :: "string \<Rightarrow> rat"
  assumes "distinct ids" and "A \<noteq> B"
    and "g A = f A - x" and "g B = f B + x" and "\<And>C. C \<noteq> A \<Longrightarrow> C \<noteq> B \<Longrightarrow> g C = f C"
  shows "sum_list (map g ids)
       = sum_list (map f ids) - (if A \<in> set ids then x else 0) + (if B \<in> set ids then x else 0)"
  using assms(1)
proof (induction ids)
  case Nil
  then show ?case by simp
next
  case (Cons i ids)
  then have IH: "sum_list (map g ids)
       = sum_list (map f ids) - (if A \<in> set ids then x else 0) + (if B \<in> set ids then x else 0)"
    and fresh: "i \<notin> set ids"
    by simp_all
  consider "i = A" | "i = B" | "i \<noteq> A" "i \<noteq> B" by blast
  then show ?case
  proof cases
    case 1
    with fresh assms(2,3) IH show ?thesis by auto
  next
    case 2
    with fresh assms(2,4) IH show ?thesis by auto
  next
    case 3
    with assms(5) [of i] IH show ?thesis by auto
  qed
qed

lemma cash_accounts_distinct:
  "distinct (map acc_id accs) \<Longrightarrow> distinct (map acc_id (cash_accounts accs))"
  by (simp add: cash_accounts_def distinct_map_filter)

lemma forecast_days_total:
  "p \<in> set (forecast_days ym txs accs bal days) \<Longrightarrow> total_cash p = cashAccountsTotal accs (balances p)"
  by (induction days arbitrary: bal) (auto simp: Let_def)

text \<open>
  Claim C6: let a transaction carry a (non-empty) \<open>transfer_account_id\<close> \<open>B\<close> and the
  account \<open>A\<close>, with \<open>A \<noteq> B\<close> and both accounts holding an entry in the running balance map
  (every account of the snapshot does).  Applying it lowers the balance of \<open>A\<close> by the
  absolute amount, raises the balance of \<open>B\<close> by the absolute amount and changes no other
  balance; when account identifiers are unique and both accounts count towards the cash
  total, the cash total is the same after as before, and a day on which it is the only
  transaction records the new balances with the unchanged total.
\<close>

theorem transfer_moves_balance_keeps_cash:
  assumes "tx_account_id tx = A" and "tx_transfer_account_id tx = Some B" and "B \<noteq> []"
    and "A \<noteq> B" and "bal A = Some a" and "bal B = Some b"
    and "distinct (map acc_id accs)"
  shows "apply_tx bal tx A = Some (a - \<bar>tx_amount tx\<bar>)
       \<and> apply_tx bal tx B = Some (b + \<bar>tx_amount tx\<bar>)
       \<and> (\<forall>C. C \<noteq> A \<and> C \<noteq> B \<longrightarrow> apply_tx bal tx C = bal C)
       \<and> (cash_eligible accs A \<and> cash_eligible accs B \<longrightarrow>
            cashAccountsTotal accs (apply_tx bal tx) = cashAccountsTotal accs bal)
       \<and> (cash_eligible accs A \<and> cash_eligible accs B
            \<and> filter (\<lambda>t. tx_date t = ym @ ''-'' @ padStart2 (int_to_string day)) txs = [tx] \<longrightarrow>
            hd (forecast_days ym txs accs bal (day # days))
              = \<lparr>fp_date = ym @ ''-'' @ padStart2 (int_to_string day),
                 balances = apply_tx bal tx,
                 total_cash = cashAccountsTotal accs bal\<rparr>)"
proof -
  let ?x = "\<bar>tx_amount tx\<bar>"
  from assms(2,3) have transfer: "truthy_opt (tx_transfer_account_id tx)"
    by (simp add: truthy_opt_def)
  with assms(1,2) have eq: "apply_tx bal tx = add_if_present (add_if_present bal A (- ?x)) B ?x"
    by (simp add: apply_tx_def Let_def)
  have at_A: "apply_tx bal tx A = Some (a - ?x)"
    using assms(4,5,6) by (simp add: eq add_if_present_def)
  have at_B: "apply_tx bal tx B = Some (b + ?x)"
    using assms(4,5,6) by (simp add: eq add_if_present_def)
  have other: "apply_tx bal tx C = bal C" if "C \<noteq> A" "C \<noteq> B" for C
    using that assms(5,6) by (simp add: eq add_if_present_def)
  have total: "cashAccountsTotal accs (apply_tx bal tx) = cashAccountsTotal accs bal"
    if "cash_eligible accs A" "cash_eligible accs B"
  proof -
    let ?ids = "map acc_id (cash_accounts accs)"
    have "sum_list (map (balance_or_zero (apply_tx bal tx)) ?ids)
        = sum_list (map (balance_or_zero bal) ?ids) - (if A \<in> set ?ids then ?x else 0)
          + (if B \<in> set ?ids then ?x else 0)"
    proof (rule shifted_sum [OF cash_accounts_distinct [OF assms(7)] assms(4)])
      show "balance_or_zero (apply_tx bal tx) A = balance_or_zero bal A - ?x"
        using at_A assms(5) by (simp add: balance_or_zero_def)
      show "balance_or_zero (apply_tx bal tx) B = balance_or_zero bal B + ?x"
        using at_B assms(6) by (simp add: balance_or_zero_def)
      show "balance_or_zero (apply_tx bal tx) C = balance_or_zero bal C" if "C \<noteq> A" "C \<noteq> B" for C
        using other [OF that] by (simp add: balance_or_zero_def)
    qed
    with that show ?thesis
      by (simp add: cashAccountsTotal_sum cash_eligible_def comp_def del: set_map)
  qed
  have day_point: "hd (forecast_days ym txs accs bal (day # days))
              = \<lparr>fp_date = ym @ ''-'' @ padStart2 (int_to_string day),
                 balances = apply_tx bal tx,
                 total_cash = cashAccountsTotal accs bal\<rparr>"
    if "cash_eligible accs A" "cash_eligible accs B"
      "filter (\<lambda>t. tx_date t = ym @ ''-'' @ padStart2 (int_to_string day)) txs = [tx]"
    using total [OF that(1,2)] that(3) by (simp add: Let_def)
  from at_A at_B other total day_point show ?thesis by blast
qed

theorem transfer_moves_balance_keeps_cash_witness:
  "apply_tx (initial_balances two_cash_accounts
               [\<lparr>sb_account_id = ''acc1'', sb_amount = 1000\<rparr>, \<lparr>sb_account_id = ''acc2'', sb_amount = 50\<rparr>])
     transfer_tx ''acc1'' = Some 700
   \<and> apply_tx (initial_balances two_cash_accounts
               [\<lparr>sb_account_id = ''acc1'', sb_amount = 1000\<rparr>, \<lparr>sb_account_id = ''acc2'', sb_amount = 50\<rparr>])
     transfer_tx ''acc2'' = Some 350
   \<and> cashAccountsTotal two_cash_accounts
        (apply_tx (initial_balances two_cash_accounts
               [\<lparr>sb_account_id = ''acc1'', sb_amount = 1000\<rparr>, \<lparr>sb_account_id = ''acc2'', sb_amount = 50\<rparr>])
           transfer_tx) = 1050"
proof -
  let ?bal = "initial_balances two_cash_accounts
               [\<lparr>sb_account_id = ''acc1'', sb_amount = 1000\<rparr>, \<lparr>sb_account_id = ''acc2'', sb_amount = 50\<rparr>]"
  have from_acc: "tx_account_id transfer_tx = ''acc1''"
    and to_acc: "tx_transfer_account_id transfer_tx = Some ''acc2''"
    and amount: "\<bar>tx_amount transfer_tx\<bar> = 300"
    by (simp_all add: transfer_tx_def)
  have bal1: "?bal ''acc1'' = Some 1000" and bal2: "?bal ''acc2'' = Some 50"
    by (simp_all add: initial_balances_def two_cash_accounts_def)
  have ids: "distinct (map acc_id two_cash_accounts)"
    by (simp add: two_cash_accounts_def)
  have eligible: "cash_eligible two_cash_accounts ''acc1''" "cash_eligible two_cash_accounts ''acc2''"
    by (simp_all add: cash_eligible_def cash_accounts_def two_cash_accounts_def)
  have before: "cashAccountsTotal two_cash_accounts ?bal = 1050"
    by (simp add: cashAccountsTotal_def cash_accounts_def two_cash_accounts_def
        balance_or_zero_def initial_balances_def)
  from transfer_moves_balance_keeps_cash [OF from_acc to_acc _ _ bal1 bal2 ids] amount eligible before
  show ?thesis by simp
qed

lemma initial_balances_dom:
  "dom (initial_balances accs sbs) = set (map acc_id accs)"
proof -
  have "dom (foldl (\<lambda>currentBalances acc.
              currentBalances(acc_id acc \<mapsto>
                (case find (\<lambda>sb. sb_account_id sb = acc_id acc) sbs of
                   Some starting \<Rightarrow> sb_amount starting
                 | None \<Rightarrow> 0))) m accs) = dom m \<union> set (map acc_id accs)" for m
    by (induction accs arbitrary: m) auto
  then show ?thesis by (simp add: initial_balances_def)
qed

lemma add_if_present_dom: "dom (add_if_present bal k d) = dom bal"
  by (auto simp: add_if_present_def split: option.splits if_splits)

lemma apply_tx_dom: "dom (apply_tx bal tx) = dom bal"
  by (simp add: apply_tx_def Let_def add_if_present_dom)

lemma foldl_apply_tx_dom: "dom (foldl apply_tx bal txs) = dom bal"
  by (induction txs arbitrary: bal) (simp_all add: apply_tx_dom)

lemma forecast_days_dom:
  "p \<in> set (forecast_days ym txs accs bal days) \<Longrightarrow> dom (balances p) = dom bal"
proof (induction days arbitrary: bal)
  case Nil
  then show ?case by simp
next
  case (Cons day days)
  let ?new = "foldl apply_tx bal
      (filter (\<lambda>tx. tx_date tx = ym @ ''-'' @ padStart2 (int_to_string day)) txs)"
  from Cons.prems
  have "balances p = ?new \<or> p \<in> set (forecast_days ym txs accs ?new days)"
    by (auto simp: Let_def)
  then show ?case
  proof
    assume "balances p = ?new"
    then show ?thesis by (simp add: foldl_apply_tx_dom)
  next
    assume "p \<in> set (forecast_days ym txs accs ?new days)"
    from Cons.IH [OF this] show ?thesis by (simp add: foldl_apply_tx_dom)
  qed
qed

text \<open>
  Claim C9 at a snapshot with a checking account (1000) and a loan account (-5000) whose
  \<open>included_in_cash_forecast\<close> flag is set: \<open>normalizeAccounts\<close> leaves the accounts as they
  are and every point of the forecast reports a cash total of -4000, the loan included.
\<close>

theorem loan_with_flag_counts_in_total_cash:
  "normalizeAccounts (accounts loan_snapshot) = accounts loan_snapshot
   \<and> map total_cash (calculateForecast loan_snapshot) = replicate 31 (- 4000)"
proof -
  have "normalizeAccounts (accounts loan_snapshot) = accounts loan_snapshot"
    by (simp add: normalizeAccounts_def loan_snapshot_def)
  moreover have "map total_cash (calculateForecast loan_snapshot) = replicate 31 (- 4000)"
    by code_simp
  ultimately show ?thesis by simp
qed

section \<open>Properties of the payroll engine\<close>

lemma process_event_date: "pc_date (snd (process_event args st ev)) = ev_date ev"
  by (simp add: process_event_def Let_def)

lemma process_event_is_bonus: "pc_is_bonus (snd (process_event args st ev)) = ev_is_bonus ev"
  by (simp add: process_event_def Let_def)

lemma process_event_ytd: "ytd (snd (process_event args st ev)) = fst (process_event args st ev)"
  by (simp add: process_event_def Let_def)

lemma process_event_k401_bonus:
  "ev_is_bonus ev \<Longrightarrow> k401_contribution (snd (process_event args st ev)) = 0"
  by (simp add: process_event_def Let_def)

lemma process_event_k401_regular:
  assumes "\<not> ev_is_bonus ev"
    and "k401_enabled (settings_401k (payrollSettings args))"
    and "enforce_annual_max (settings_401k (payrollSettings args))"
  shows "k401_contribution (snd (process_event args st ev))
       = min (desired_contribution args (grossPerPaycheck args)) (max 0 (k401Max args - ytd401k st))"
  using assms by (simp add: process_event_def Let_def)

lemma process_event_ytd401k:
  "ytd401k (fst (process_event args st ev))
     = ytd401k st + k401_contribution (snd (process_event args st ev))"
  by (simp add: process_event_def Let_def)

lemma loop_is_filter:
  "snd (foldl (loop_step args) (st, rs) evs)
     = rs @ filter (\<lambda>r. startsWith (pc_date r) (arg_monthId args)) (process_events args st evs)"
proof (induction evs arbitrary: st rs)
  case Nil
  then show ?case by simp
next
  case (Cons ev evs)
  obtain st' r where step: "process_event args st ev = (st', r)" by (cases "process_event args st ev")
  then have date: "pc_date r = ev_date ev"
    using process_event_date [of args st ev] by simp
  have step_eq: "loop_step args (st, rs) ev
      = (st', if startsWith (ev_date ev) (arg_monthId args) then rs @ [r] else rs)"
    by (simp add: loop_step_def step)
  show ?case
    by (simp add: step_eq step date Cons.IH)
qed

lemma calculatePayrollForMonth_filter:
  "calculatePayrollForMonth args
     = filter (\<lambda>r. startsWith (pc_date r) (arg_monthId args)) (all_results args)"
  by (simp add: calculatePayrollForMonth_def all_results_def loop_is_filter)

lemma length_process_events: "length (process_events args st evs) = length evs"
  by (induction evs arbitrary: st) simp_all

lemma process_events_nth:
  "i < length evs \<Longrightarrow>
   process_events args st evs ! i = snd (process_event args (state_after args st (take i evs)) (evs ! i))"
proof (induction evs arbitrary: st i)
  case Nil
  then show ?case by simp
next
  case (Cons ev evs)
  then show ?case by (cases i) (simp_all add: state_after_def)
qed

lemma state_after_ytd401k:
  "i \<le> length evs \<Longrightarrow>
   ytd401k (state_after args st (take i evs))
     = ytd401k st + sum_list (map k401_contribution (take i (process_events args st evs)))"
proof (induction evs arbitrary: st i)
  case Nil
  then show ?case by (simp add: state_after_def)
next
  case (Cons ev evs)
  show ?case
  proof (cases i)
    case 0
    then show ?thesis by (simp add: state_after_def)
  next
    case (Suc j)
    with Cons.prems have "j \<le> length evs" by simp
    from Cons.IH [OF this, of "fst (process_event args st ev)"] Suc
    show ?thesis
      by (simp add: state_after_def process_event_ytd401k)
  qed
qed

lemma k401_before_Suc:
  "i < length rs \<Longrightarrow> k401_before rs (Suc i) = k401_before rs i + k401_contribution (rs ! i)"
  by (simp add: k401_before_def take_Suc_conv_app_nth)

lemma all_results_bonus:
  assumes "i < length (all_results args)" and "pc_is_bonus (all_results args ! i)"
  shows "k401_contribution (all_results args ! i) = 0"
proof -
  from assms(1) have i: "i < length (payroll_events args)"
    by (simp add: all_results_def length_process_events)
  from assms(2) have "ev_is_bonus (payroll_events args ! i)"
    by (simp add: all_results_def process_events_nth [OF i] process_event_is_bonus)
  then show ?thesis
    by (simp add: all_results_def process_events_nth [OF i] process_event_k401_bonus)
qed

lemma all_results_regular:
  assumes "i < length (all_results args)" and "\<not> pc_is_bonus (all_results args ! i)"
    and "k401_enabled (settings_401k (payrollSettings args))"
    and "enforce_annual_max (settings_401k (payrollSettings args))"
  shows "k401_contribution (all_results args ! i)
       = min (desired_contribution args (grossPerPaycheck args))
             (max 0 (k401Max args - k401_before (all_results args) i))"
proof -
  from assms(1) have i: "i < length (payroll_events args)"
    by (simp add: all_results_def length_process_events)
  from assms(2) have regular: "\<not> ev_is_bonus (payroll_events args ! i)"
    by (simp add: all_results_def process_events_nth [OF i] process_event_is_bonus)
  from i have "ytd401k (state_after args ytd_zero (take i (payroll_events args)))
      = k401_before (all_results args) i"
    by (simp add: state_after_ytd401k all_results_def k401_before_def ytd_zero_def)
  then show ?thesis
    by (simp add: all_results_def process_events_nth [OF i]
        process_event_k401_regular [OF regular assms(3,4)])
qed

lemma all_results_ytd:
  assumes "i < length (all_results args)"
  shows "ytd401k (ytd (all_results args ! i)) = k401_before (all_results args) (Suc i)"
proof -
  from assms have i: "i < length (payroll_events args)"
    by (simp add: all_results_def length_process_events)
  have "ytd (all_results args ! i)
      = fst (process_event args (state_after args ytd_zero (take i (payroll_events args)))
               (payroll_events args ! i))"
    by (simp add: all_results_def process_events_nth [OF i] process_event_ytd)
  also have "\<dots> = state_after args ytd_zero (take (Suc i) (payroll_events args))"
    using i by (simp add: state_after_def take_Suc_conv_app_nth)
  finally show ?thesis
    using i by (simp add: state_after_ytd401k all_results_def k401_before_def ytd_zero_def)
qed

lemma capped_stays_capped:
  assumes enabled: "k401_enabled (settings_401k (payrollSettings args))"
    and enforce: "enforce_annual_max (settings_401k (payrollSettings args))"
    and desired: "0 \<le> desired_contribution args (grossPerPaycheck args)"
    and full: "k401_before (all_results args) j = k401Max args"
    and "j \<le> k" and "k \<le> length (all_results args)"
  shows "k401_before (all_results args) k = k401Max args"
  using assms(5,6)
proof (induction k)
  case 0
  with full show ?case by simp
next
  case (Suc k)
  show ?case
  proof (cases "j = Suc k")
    case True
    with full show ?thesis by simp
  next
    case False
    with Suc.prems have jk: "j \<le> k" and k: "k < length (all_results args)" by simp_all
    with Suc.IH have before: "k401_before (all_results args) k = k401Max args" by simp
    have "k401_contribution (all_results args ! k) = 0"
    proof (cases "pc_is_bonus (all_results args ! k)")
      case True
      with k show ?thesis by (rule all_results_bonus)
    next
      case False
      from all_results_regular [OF k False enabled enforce] before desired
      show ?thesis by simp
    qed
    with before k show ?thesis by (simp add: k401_before_Suc)
  qed
qed

text \<open>
  Claim C4: with the 401(k) enabled and the annual maximum enforced, the annual maximum is
  the table's employee maximum plus, when catch-up is enabled, the override or else the
  table's catch-up amount.  Over the results of all events processed from January on, the
  reported year-to-date contribution is the sum of the contributions so far, and every
  regular event contributes the smaller of the desired amount and what is left of the
  maximum after the contributions before it.  Hence, for a non-negative desired amount, the
  paycheck at which the sum would reach or pass the maximum contributes exactly the maximum
  minus the contributions before it, and every later event contributes 0.  The returned
  paychecks are the results whose date starts with the month id.
\<close>

theorem k401_annual_cap:
  assumes enabled: "k401_enabled (settings_401k (payrollSettings args))"
    and enforce: "enforce_annual_max (settings_401k (payrollSettings args))"
  shows "calculatePayrollForMonth args
           = filter (\<lambda>r. startsWith (pc_date r) (arg_monthId args)) (all_results args)
       \<and> k401Max args
           = k401_employee_max (retirement (taxTables args))
             + (if catch_up_enabled (settings_401k (payrollSettings args))
                then (case catch_up_amount_override (settings_401k (payrollSettings args)) of
                        Some override \<Rightarrow> override
                      | None \<Rightarrow> k401_catch_up_max (retirement (taxTables args)))
                else 0)
       \<and> (\<forall>i < length (all_results args).
            ytd401k (ytd (all_results args ! i))
              = k401_before (all_results args) i + k401_contribution (all_results args ! i)
            \<and> (\<not> pc_is_bonus (all_results args ! i) \<longrightarrow>
                 k401_contribution (all_results args ! i)
                   = min (desired_contribution args (grossPerPaycheck args))
                         (max 0 (k401Max args - k401_before (all_results args) i)))
            \<and> (\<not> pc_is_bonus (all_results args ! i)
                 \<and> 0 \<le> desired_contribution args (grossPerPaycheck args)
                 \<and> k401_before (all_results args) i < k401Max args
                 \<and> k401Max args
                     \<le> k401_before (all_results args) i
                        + desired_contribution args (grossPerPaycheck args) \<longrightarrow>
                 k401_contribution (all_results args ! i)
                   = k401Max args - k401_before (all_results args) i
                 \<and> (\<forall>k. i < k \<and> k < length (all_results args) \<longrightarrow>
                        k401_contribution (all_results args ! k) = 0)))
       \<and> (\<forall>r\<in>set (calculatePayrollForMonth args).
            \<not> pc_is_bonus r \<longrightarrow>
            k401_contribution r
              = min (desired_contribution args (grossPerPaycheck args))
                    (max 0 (k401Max args - (ytd401k (ytd r) - k401_contribution r))))"
proof -
  let ?rs = "all_results args"
  let ?d = "desired_contribution args (grossPerPaycheck args)"
  let ?M = "k401Max args"
  have max_eq: "?M = k401_employee_max (retirement (taxTables args))
             + (if catch_up_enabled (settings_401k (payrollSettings args))
                then (case catch_up_amount_override (settings_401k (payrollSettings args)) of
                        Some override \<Rightarrow> override
                      | None \<Rightarrow> k401_catch_up_max (retirement (taxTables args)))
                else 0)"
    by (simp add: k401Max_def or_else_def split: option.splits)
  have ytd_eq: "ytd401k (ytd (?rs ! i)) = k401_before ?rs i + k401_contribution (?rs ! i)"
    if "i < length ?rs" for i
    using all_results_ytd [OF that] k401_before_Suc [OF that] by simp
  have formula: "k401_contribution (?rs ! i) = min ?d (max 0 (?M - k401_before ?rs i))"
    if "i < length ?rs" "\<not> pc_is_bonus (?rs ! i)" for i
    using that enabled enforce by (rule all_results_regular)
  have crossing: "k401_contribution (?rs ! i) = ?M - k401_before ?rs i
      \<and> (\<forall>k. i < k \<and> k < length ?rs \<longrightarrow> k401_contribution (?rs ! k) = 0)"
    if i: "i < length ?rs" and regular: "\<not> pc_is_bonus (?rs ! i)" and d: "0 \<le> ?d"
      and below: "k401_before ?rs i < ?M" and reach: "?M \<le> k401_before ?rs i + ?d" for i
  proof -
    from formula [OF i regular] below reach
    have at_i: "k401_contribution (?rs ! i) = ?M - k401_before ?rs i" by simp
    with i have full: "k401_before ?rs (Suc i) = ?M" by (simp add: k401_before_Suc)
    have "k401_contribution (?rs ! k) = 0" if "i < k" "k < length ?rs" for k
    proof -
      from that have "Suc i \<le> k" "k \<le> length ?rs" by simp_all
      from capped_stays_capped [OF enabled enforce d full this]
      have before: "k401_before ?rs k = ?M" .
      show ?thesis
      proof (cases "pc_is_bonus (?rs ! k)")
        case True
        with that(2) show ?thesis by (rule all_results_bonus)
      next
        case False
        from formula [OF that(2) False] before d show ?thesis by simp
      qed
    qed
    with at_i show ?thesis by blast
  qed
  have returned: "k401_contribution r = min ?d (max 0 (?M - (ytd401k (ytd r) - k401_contribution r)))"
    if "r \<in> set (calculatePayrollForMonth args)" "\<not> pc_is_bonus r" for r
  proof -
    from that(1) have "r \<in> set ?rs"
      by (simp add: calculatePayrollForMonth_filter)
    then obtain i where i: "i < length ?rs" and r: "?rs ! i = r"
      by (auto simp: in_set_conv_nth)
    from ytd_eq [OF i] r have "k401_before ?rs i = ytd401k (ytd r) - k401_contribution r"
      by simp
    with formula [OF i] r that(2) show ?thesis by simp
  qed
  from calculatePayrollForMonth_filter [of args] max_eq ytd_eq formula crossing
  have "calculatePayrollForMonth args
           = filter (\<lambda>r. startsWith (pc_date r) (arg_monthId args)) (all_results args)
       \<and> k401Max args
           = k401_employee_max (retirement (taxTables args))
             + (if catch_up_enabled (settings_401k (payrollSettings args))
                then (case catch_up_amount_override (settings_401k (payrollSettings args)) of
                        Some override \<Rightarrow> override
                      | None \<Rightarrow> k401_catch_up_max (retirement (taxTables args)))
                else 0)
       \<and> (\<forall>i < length (all_results args).
            ytd401k (ytd (all_results args ! i))
              = k401_before (all_results args) i + k401_contribution (all_results args ! i)
            \<and> (\<not> pc_is_bonus (all_results args ! i) \<longrightarrow>
                 k401_contribution (all_results args ! i)
                   = min (desired_contribution args (grossPerPaycheck args))
                         (max 0 (k401Max args - k401_before (all_results args) i)))
            \<and> (\<not> pc_is_bonus (all_results args ! i)
                 \<and> 0 \<le> desired_contribution args (grossPerPaycheck args)
                 \<and> k401_before (all_results args) i < k401Max args
                 \<and> k401Max args
                     \<le> k401_before (all_results args) i
                        + desired_contribution args (grossPerPaycheck args) \<longrightarrow>
                 k401_contribution (all_results args ! i)
                   = k401Max args - k401_before (all_results args) i
                 \<and> (\<forall>k. i < k \<and> k < length (all_results args) \<longrightarrow>
                        k401_contribution (all_results args ! k) = 0)))"
    by blast
  moreover from returned
  have "\<forall>r\<in>set (calculatePayrollForMonth args).
            \<not> pc_is_bonus r \<longrightarrow>
            k401_contribution r
              = min (desired_contribution args (grossPerPaycheck args))
                    (max 0 (k401Max args - (ytd401k (ytd r) - k401_contribution r)))"
    by blast
  ultimately show ?thesis by blast
qed

theorem k401_annual_cap_witness:
  "k401_contribution (all_results february_args ! 2) = 1000
   \<and> k401_contribution (all_results february_args ! 3) = 0
   \<and> map pc_date (calculatePayrollForMonth february_args) = [''2024-02-15'', ''2024-02-29'']"
proof -
  let ?rs = "all_results february_args"
  have enabled: "k401_enabled (settings_401k (payrollSettings february_args))"
    and enforce: "enforce_annual_max (settings_401k (payrollSettings february_args))"
    by (simp_all add: february_args_def example_settings_def)
  have len: "length ?rs = 4" by code_simp
  have regular: "\<not> pc_is_bonus (?rs ! 2)" by code_simp
  have desired: "desired_contribution february_args (grossPerPaycheck february_args) = 2500"
    by code_simp
  have before: "k401_before ?rs 2 = 5000" by code_simp
  have limit: "k401Max february_args = 6000" by code_simp
  have dates: "map pc_date (filter (\<lambda>r. startsWith (pc_date r) (arg_monthId february_args)) ?rs)
      = [''2024-02-15'', ''2024-02-29'']"
    by code_simp
  from k401_annual_cap [OF enabled enforce]
  have filter_eq: "calculatePayrollForMonth february_args
           = filter (\<lambda>r. startsWith (pc_date r) (arg_monthId february_args)) ?rs"
    and each: "\<forall>i < length ?rs.
            ytd401k (ytd (?rs ! i)) = k401_before ?rs i + k401_contribution (?rs ! i)
            \<and> (\<not> pc_is_bonus (?rs ! i) \<longrightarrow>
                 k401_contribution (?rs ! i)
                   = min (desired_contribution february_args (grossPerPaycheck february_args))
                         (max 0 (k401Max february_args - k401_before ?rs i)))
            \<and> (\<not> pc_is_bonus (?rs ! i)
                 \<and> 0 \<le> desired_contribution february_args (grossPerPaycheck february_args)
                 \<and> k401_before ?rs i < k401Max february_args
                 \<and> k401Max february_args
                     \<le> k401_before ?rs i
                        + desired_contribution february_args (grossPerPaycheck february_args) \<longrightarrow>
                 k401_contribution (?rs ! i) = k401Max february_args - k401_before ?rs i
                 \<and> (\<forall>k. i < k \<and> k < length ?rs \<longrightarrow> k401_contribution (?rs ! k) = 0))"
    by blast+
  have "2 < length ?rs" using len by simp
  with each have "\<not> pc_is_bonus (?rs ! 2)
                 \<and> 0 \<le> desired_contribution february_args (grossPerPaycheck february_args)
                 \<and> k401_before ?rs 2 < k401Max february_args
                 \<and> k401Max february_args
                     \<le> k401_before ?rs 2
                        + desired_contribution february_args (grossPerPaycheck february_args) \<longrightarrow>
                 k401_contribution (?rs ! 2) = k401Max february_args - k401_before ?rs 2
                 \<and> (\<forall>k. 2 < k \<and> k < length ?rs \<longrightarrow> k401_contribution (?rs ! k) = 0)"
    by blast
  with regular desired before limit len
  have "k401_contribution (?rs ! 2) = 1000"
    and "\<forall>k. 2 < k \<and> k < 4 \<longrightarrow> k401_contribution (?rs ! k) = 0"
    by simp_all
  then have "k401_contribution (?rs ! 2) = 1000" and "k401_contribution (?rs ! 3) = 0"
    by simp_all
  with filter_eq dates show ?thesis by simp
qed

text \<open>
  Claim C5 at March 2024 with a bonus dated 2023-12-15 in the settings: the bonus is among
  the processed events, ahead of the January pay dates, and the year-to-date gross of the
  March paychecks (35000 and 40000) carries its 10000 on top of the 2024 paychecks.
\<close>

theorem prior_year_bonus_enters_ytd:
  "map ev_id (payroll_events march_args)
     = [''bonus:b1'', ''regular:2024-01-15'', ''regular:2024-01-31'', ''regular:2024-02-15'',
        ''regular:2024-02-29'', ''regular:2024-03-15'', ''regular:2024-03-31'']
   \<and> map (\<lambda>r. (pc_date r, gross r, ytdGross (ytd r))) (calculatePayrollForMonth march_args)
     = [(''2024-03-15'', 5000, 35000), (''2024-03-31'', 5000, 40000)]"
  by code_simp

section \<open>Properties of the monthly date\<close>

lemma digit_not_space: "is_digit c \<Longrightarrow> \<not> is_space c"
  by (auto simp: is_digit_def is_space_def)

lemma digit_not_sign: "is_digit c \<Longrightarrow> c \<noteq> CHR ''-'' \<and> c \<noteq> CHR ''+''"
  by (auto simp: is_digit_def)

lemma sign_not_space: "\<not> is_space CHR ''-''" "\<not> is_space CHR ''+''"
  by (simp_all add: is_space_def)

lemma takeWhile_digits:
  assumes "list_all is_digit ds" and "rest = [] \<or> \<not> is_digit (hd rest)"
  shows "takeWhile is_digit (ds @ rest) = ds"
proof -
  from assms(2) have "takeWhile is_digit rest = []"
    by (cases rest) auto
  with assms(1) show ?thesis
    by (simp add: list_all_iff)
qed

lemma dropWhile_spaces:
  assumes "list_all is_space ws" and "t = [] \<or> \<not> is_space (hd t)"
  shows "dropWhile is_space (ws @ t) = t"
proof -
  from assms(2) have "dropWhile is_space t = t"
    by (cases t) auto
  with assms(1) show ?thesis
    by (simp add: list_all_iff)
qed

lemma parseInt10_number:
  assumes ws: "list_all is_space ws"
    and sg: "sg = [] \<or> sg = ''+'' \<or> sg = ''-''"
    and ds: "ds \<noteq> []" "list_all is_digit ds"
    and rest: "rest = [] \<or> \<not> is_digit (hd rest)"
  shows "parseInt10 (ws @ sg @ ds @ rest)
       = Some (if sg = ''-'' then - int (digits_to_nat ds) else int (digits_to_nat ds))"
proof -
  from ds obtain c cs where c: "ds = c # cs" "is_digit c"
    by (cases ds) auto
  have tw: "takeWhile is_digit (ds @ rest) = ds"
    using takeWhile_digits [OF ds(2) rest] .
  from sg c have "sg @ ds @ rest = [] \<or> \<not> is_space (hd (sg @ ds @ rest))"
    by (auto simp: sign_not_space digit_not_space)
  from dropWhile_spaces [OF ws this]
  have dw: "dropWhile is_space (ws @ sg @ ds @ rest) = sg @ ds @ rest" .
  from sg show ?thesis
  proof (elim disjE)
    assume "sg = []"
    with dw tw c digit_not_sign [OF c(2)] ds(1) show ?thesis
      by (simp add: parseInt10_def Let_def)
  next
    assume "sg = ''+''"
    with dw tw ds(1) show ?thesis
      by (simp add: parseInt10_def Let_def)
  next
    assume "sg = ''-''"
    with dw tw ds(1) show ?thesis
      by (simp add: parseInt10_def Let_def)
  qed
qed

lemma parseInt10_no_number:
  assumes ws: "list_all is_space ws"
    and sg: "sg = ''+'' \<or> sg = ''-''
             \<or> (sg = [] \<and> (rest = [] \<or> (\<not> is_space (hd rest) \<and> hd rest \<noteq> CHR ''+''
                                           \<and> hd rest \<noteq> CHR ''-'')))"
    and rest: "rest = [] \<or> \<not> is_digit (hd rest)"
  shows "parseInt10 (ws @ sg @ rest) = None"
proof -
  from rest have tw: "takeWhile is_digit rest = []"
    by (cases rest) auto
  from sg have "sg @ rest = [] \<or> \<not> is_space (hd (sg @ rest))"
    by (auto simp: sign_not_space)
  from dropWhile_spaces [OF ws this]
  have dw: "dropWhile is_space (ws @ sg @ rest) = sg @ rest" .
  from sg show ?thesis
  proof (elim disjE)
    assume "sg = ''+''"
    with dw tw show ?thesis
      by (simp add: parseInt10_def Let_def)
  next
    assume "sg = ''-''"
    with dw tw show ?thesis
      by (simp add: parseInt10_def Let_def)
  next
    assume a: "sg = [] \<and> (rest = [] \<or> (\<not> is_space (hd rest) \<and> hd rest \<noteq> CHR ''+''
                                           \<and> hd rest \<noteq> CHR ''-''))"
    then show ?thesis
      unfolding parseInt10_def dw using tw by (auto simp: Let_def)
  qed
qed

lemma day_of_doy_range:
  fixes doy :: int
  shows "1 \<le> doy - (153 * ((5 * doy + 2) div 153) + 2) div 5 + 1
       \<and> doy - (153 * ((5 * doy + 2) div 153) + 2) div 5 + 1 \<le> 31"
proof -
  define mp where "mp = (5 * doy + 2) div 153"
  define r where "r = (5 * doy + 2) mod 153"
  define q where "q = (153 * mp + 2) div 5"
  define s where "s = (153 * mp + 2) mod 5"
  have e1: "153 * mp + r = 5 * doy + 2"
    unfolding mp_def r_def by (rule mult_div_mod_eq)
  have r: "0 \<le> r" "r < 153"
    unfolding r_def by simp_all
  have e2: "5 * q + s = 153 * mp + 2"
    unfolding q_def s_def by (rule mult_div_mod_eq)
  have s: "0 \<le> s" "s < 5"
    unfolding s_def by simp_all
  from e1 r e2 s have "1 \<le> doy - q + 1 \<and> doy - q + 1 \<le> 31"
    by linarith
  then show ?thesis
    unfolding q_def mp_def .
qed

lemma civil_day_range:
  "1 \<le> snd (snd (civil_from_days z)) \<and> snd (snd (civil_from_days z)) \<le> 31"
  unfolding civil_from_days_def Let_def snd_conv
  by (rule day_of_doy_range)

lemma getDate_range: "getDate t = Some d \<Longrightarrow> 1 \<le> d \<and> d \<le> 31"
  using civil_day_range by (auto simp: getDate_def)


lemma parseInt10_digits:
  assumes "ds \<noteq> []" and "list_all is_digit ds"
  shows "parseInt10 ds = Some (int (digits_to_nat ds))"
  using parseInt10_number [of "[]" "[]" ds "[]"] assms by simp

lemma digits_not_last:
  assumes "ds \<noteq> []" and "list_all is_digit ds"
  shows "ds \<noteq> ''last''" and "take 4 ds \<noteq> ''day:''"
  using assms by (cases ds; auto simp: is_digit_def)+

lemma day_rule_raw_prefix: "day_rule_raw (''day:'' @ r) = r"
  by (simp add: day_rule_raw_def)

lemma day_rule_raw_other: "take 4 dayRule \<noteq> ''day:'' \<Longrightarrow> day_rule_raw dayRule = dayRule"
  by (simp add: day_rule_raw_def)

lemma parsed_day_digits:
  assumes "ds \<noteq> []" and "list_all is_digit ds"
  shows "parsed_day ds
           = (if js_finite (int (digits_to_nat ds)) then Some (int (digits_to_nat ds)) else None)"
    and "parsed_day (''day:'' @ ds)
           = (if js_finite (int (digits_to_nat ds)) then Some (int (digits_to_nat ds)) else None)"
  using parseInt10_digits [OF assms] digits_not_last(2) [OF assms]
  by (simp_all add: parsed_day_def day_rule_raw_def)

lemma getMonthlyDate_last:
  assumes "mi_daysInMonth (getMonthInfo monthId) = Some ndays"
  shows "getMonthlyDate monthId ''last'' fb = month_day monthId ndays"
  using assms by (simp add: getMonthlyDate_def month_day_def num_to_string_def)

lemma finite_or_parsed:
  "finite_or (parseInt10 (day_rule_raw dayRule)) fb
     = (case parsed_day dayRule of Some n \<Rightarrow> Some n | None \<Rightarrow> fb)"
  by (simp add: finite_or_def parsed_day_def split: option.splits)

lemma getMonthlyDate_other:
  assumes "dayRule \<noteq> ''last''"
  shows "getMonthlyDate monthId dayRule fb
       = monthId @ ''-'' @ padStart2 (num_to_string
           (js_min (js_max (case parsed_day dayRule of Some n \<Rightarrow> Some n | None \<Rightarrow> fb) (Some 1))
              (mi_daysInMonth (getMonthInfo monthId))))"
  using assms finite_or_parsed [of dayRule fb]
  by (simp add: getMonthlyDate_def Let_def day_rule_raw_def)

lemma getMonthlyDate_parsed:
  assumes "mi_daysInMonth (getMonthInfo monthId) = Some ndays"
    and "dayRule \<noteq> ''last''"
    and "parsed_day dayRule = Some n"
  shows "getMonthlyDate monthId dayRule fb = month_day monthId (clamp_day n ndays)"
  using assms(1,3)
  by (simp add: getMonthlyDate_other [OF assms(2)] month_day_def num_to_string_def
      js_max_def js_min_def clamp_day_def)

lemma getMonthlyDate_fallback:
  assumes "mi_daysInMonth (getMonthInfo monthId) = Some ndays"
    and "dayRule \<noteq> ''last''"
    and "parsed_day dayRule = None"
  shows "getMonthlyDate monthId dayRule (Some a) = month_day monthId (clamp_day a ndays)"
    and "getMonthlyDate monthId dayRule None = monthId @ ''-NaN''"
  using assms(1,3)
  by (simp_all add: getMonthlyDate_other [OF assms(2)] month_day_def num_to_string_def
      js_max_def js_min_def clamp_day_def padStart2_def)

lemma digits_to_nat_append:
  "digits_to_nat (ds @ es) = foldl (\<lambda>acc c. 10 * acc + digit_val c) (digits_to_nat ds) es"
  by (simp add: digits_to_nat_def)

lemma digits_to_nat_zeros:
  "foldl (\<lambda>acc c. 10 * acc + digit_val c) n (replicate k CHR ''0'') = n * 10 ^ k"
  by (induction k arbitrary: n) (simp_all add: digit_val_def)

lemma parsed_day_all_digits: "\<forall>ds. ds \<noteq> [] \<and> list_all is_digit ds \<longrightarrow>
              ds \<noteq> ''last''
              \<and> parsed_day ds
                  = (if js_finite (int (digits_to_nat ds)) then Some (int (digits_to_nat ds)) else None)
              \<and> parsed_day (''day:'' @ ds) = parsed_day ds"
proof (intro allI impI)
  fix ds :: string
  assume "ds \<noteq> [] \<and> list_all is_digit ds"
  then have ds: "ds \<noteq> []" "list_all is_digit ds" by simp_all
  from digits_not_last(1) [OF ds] parsed_day_digits [OF ds]
  show "ds \<noteq> ''last''
              \<and> parsed_day ds
                  = (if js_finite (int (digits_to_nat ds)) then Some (int (digits_to_nat ds)) else None)
              \<and> parsed_day (''day:'' @ ds) = parsed_day ds"
    by simp
qed

lemma parseInt10_all_number: "\<forall>ws sg ds rest.
              list_all is_space ws \<and> (sg = [] \<or> sg = ''+'' \<or> sg = ''-'')
              \<and> ds \<noteq> [] \<and> list_all is_digit ds \<and> (rest = [] \<or> \<not> is_digit (hd rest)) \<longrightarrow>
              parseInt10 (ws @ sg @ ds @ rest)
                = Some (if sg = ''-'' then - int (digits_to_nat ds) else int (digits_to_nat ds))"
proof (intro allI impI, elim conjE)
  fix ws sg ds rest :: string
  assume "list_all is_space ws" "sg = [] \<or> sg = ''+'' \<or> sg = ''-''"
    "ds \<noteq> []" "list_all is_digit ds" "rest = [] \<or> \<not> is_digit (hd rest)"
  then show "parseInt10 (ws @ sg @ ds @ rest)
                = Some (if sg = ''-'' then - int (digits_to_nat ds) else int (digits_to_nat ds))"
    by (rule parseInt10_number)
qed

lemma parseInt10_all_no_number: "\<forall>ws sg rest.
              list_all is_space ws
              \<and> (sg = ''+'' \<or> sg = ''-''
                  \<or> (sg = [] \<and> (rest = [] \<or> (\<not> is_space (hd rest) \<and> hd rest \<noteq> CHR ''+''
                                                \<and> hd rest \<noteq> CHR ''-''))))
              \<and> (rest = [] \<or> \<not> is_digit (hd rest)) \<longrightarrow>
              parseInt10 (ws @ sg @ rest) = None"
proof (intro allI impI, elim conjE)
  fix ws sg rest :: string
  assume "list_all is_space ws"
    "sg = ''+'' \<or> sg = ''-''
                  \<or> (sg = [] \<and> (rest = [] \<or> (\<not> is_space (hd rest) \<and> hd rest \<noteq> CHR ''+''
                                                \<and> hd rest \<noteq> CHR ''-'')))"
    "rest = [] \<or> \<not> is_digit (hd rest)"
  then show "parseInt10 (ws @ sg @ rest) = None"
    by (rule parseInt10_no_number)
qed


text \<open>
  A rule that only starts with a number is read as that number: for the rule \<open>15th\<close>, which
  is neither \<open>last\<close> nor a number nor \<open>day:\<close> and a number, an item anchored on the 3rd
  is dated on the 15th, not on the anchor's day of the month.
\<close>

theorem monthly_rule_15th_not_anchor_day:
  "item_dates ''2024-02'' (rent_item\<lparr>ri_day_rule := ''15th'', ri_anchor_date := Some ''2024-01-03''\<rparr>)
     = [''2024-02-15'']
   \<and> getDate (parseDate (item_anchor ''2024-02''
        (rent_item\<lparr>ri_day_rule := ''15th'', ri_anchor_date := Some ''2024-01-03''\<rparr>))) = Some 3
   \<and> ''15th'' \<noteq> ''last''
   \<and> \<not> list_all is_digit ''15th''
   \<and> \<not> list_all is_digit (day_rule_raw ''15th'')
   \<and> Number_js ''15th'' = None"
  by code_simp

text \<open>
  Claim C7: for a month whose number of days the runtime computes as \<open>ndays\<close> (always
  between 1 and 31), a monthly item gets exactly one date.  With the rule \<open>last\<close> it is
  the last day.  Otherwise, when \<^verbatim>\<open>parseInt\<close> reads a finite number at the start of the rule
  (after an optional \<open>day:\<close>), it is that number clamped to 1..\<open>ndays\<close>; when it reads
  none, it is the day of the month of the anchor date, clamped likewise (that very day
  whenever the month has it), and the text \<open>NaN\<close> in place of the day when the anchor is no
  date.  These cases are exhaustive.  \<^verbatim>\<open>parseInt\<close> skips white space, takes a sign and reads
  the longest run of digits, whatever follows; it reads no number exactly when no digit
  stands there.  A rule of digits only, bare or after \<open>day:\<close>, is its value.  Every date the
  item gets is a day of the month itself: rule \<open>31\<close> gives 2024-02-29 and 2023-02-28 in
  February.
\<close>

theorem monthly_item_date:
  assumes month: "mi_daysInMonth (getMonthInfo monthId) = Some ndays"
    and monthly: "ri_cadence item = Monthly"
  shows "1 \<le> ndays \<and> ndays \<le> 31
       \<and> (ri_day_rule item = ''last'' \<longrightarrow> item_dates monthId item = [month_day monthId ndays])
       \<and> (\<forall>n. ri_day_rule item \<noteq> ''last'' \<and> parsed_day (ri_day_rule item) = Some n \<longrightarrow>
              item_dates monthId item = [month_day monthId (clamp_day n ndays)]
              \<and> 1 \<le> clamp_day n ndays \<and> clamp_day n ndays \<le> ndays)
       \<and> (\<forall>a. ri_day_rule item \<noteq> ''last'' \<and> parsed_day (ri_day_rule item) = None
              \<and> getDate (parseDate (item_anchor monthId item)) = Some a \<longrightarrow>
              item_dates monthId item = [month_day monthId (clamp_day a ndays)]
              \<and> 1 \<le> clamp_day a ndays \<and> clamp_day a ndays \<le> ndays
              \<and> (a \<le> ndays \<longrightarrow> clamp_day a ndays = a))
       \<and> (ri_day_rule item \<noteq> ''last'' \<and> parsed_day (ri_day_rule item) = None
              \<and> getDate (parseDate (item_anchor monthId item)) = None \<longrightarrow>
              item_dates monthId item = [monthId @ ''-NaN''])
       \<and> (\<forall>ds. ds \<noteq> [] \<and> list_all is_digit ds \<longrightarrow>
              ds \<noteq> ''last''
              \<and> parsed_day ds
                  = (if js_finite (int (digits_to_nat ds)) then Some (int (digits_to_nat ds)) else None)
              \<and> parsed_day (''day:'' @ ds) = parsed_day ds)
       \<and> (\<forall>ws sg ds rest.
              list_all is_space ws \<and> (sg = [] \<or> sg = ''+'' \<or> sg = ''-'')
              \<and> ds \<noteq> [] \<and> list_all is_digit ds \<and> (rest = [] \<or> \<not> is_digit (hd rest)) \<longrightarrow>
              parseInt10 (ws @ sg @ ds @ rest)
                = Some (if sg = ''-'' then - int (digits_to_nat ds) else int (digits_to_nat ds)))
       \<and> (\<forall>ws sg rest.
              list_all is_space ws
              \<and> (sg = ''+'' \<or> sg = ''-''
                  \<or> (sg = [] \<and> (rest = [] \<or> (\<not> is_space (hd rest) \<and> hd rest \<noteq> CHR ''+''
                                                \<and> hd rest \<noteq> CHR ''-''))))
              \<and> (rest = [] \<or> \<not> is_digit (hd rest)) \<longrightarrow>
              parseInt10 (ws @ sg @ rest) = None)
       \<and> (\<forall>r. day_rule_raw (''day:'' @ r) = r)
       \<and> (\<forall>r. take 4 r \<noteq> ''day:'' \<longrightarrow> day_rule_raw r = r)
       \<and> parsed_day [] = None
       \<and> getMonthlyDate ''2024-02'' ''31'' fb = ''2024-02-29''
       \<and> getMonthlyDate ''2023-02'' ''31'' fb = ''2023-02-28''"
proof -
  let ?fb = "getDate (parseDate (item_anchor monthId item))"
  let ?rule = "ri_day_rule item"
  have single: "item_dates monthId item = [getMonthlyDate monthId ?rule ?fb]"
    using monthly by (simp add: item_dates_def Let_def)
  from month have "getDate (MakeDate (nth_num (split_on CHR ''-'' monthId) 0)
      (nth_num (split_on CHR ''-'' monthId) 1) (Some 0)) = Some ndays"
    by (simp add: getMonthInfo_def Let_def)
  then have ndays: "1 \<le> ndays" "ndays \<le> 31"
    using getDate_range by blast+
  have clamp: "1 \<le> clamp_day n ndays \<and> clamp_day n ndays \<le> ndays" for n
    using ndays by (simp add: clamp_day_def)
  have last: "?rule = ''last'' \<longrightarrow> item_dates monthId item = [month_day monthId ndays]"
    using single getMonthlyDate_last [OF month] by simp
  have numeric: "\<forall>n. ?rule \<noteq> ''last'' \<and> parsed_day ?rule = Some n \<longrightarrow>
              item_dates monthId item = [month_day monthId (clamp_day n ndays)]
              \<and> 1 \<le> clamp_day n ndays \<and> clamp_day n ndays \<le> ndays"
    using single getMonthlyDate_parsed [OF month] clamp by simp
  have fallback: "\<forall>a. ?rule \<noteq> ''last'' \<and> parsed_day ?rule = None \<and> ?fb = Some a \<longrightarrow>
              item_dates monthId item = [month_day monthId (clamp_day a ndays)]
              \<and> 1 \<le> clamp_day a ndays \<and> clamp_day a ndays \<le> ndays
              \<and> (a \<le> ndays \<longrightarrow> clamp_day a ndays = a)"
  proof (intro allI impI)
    fix a
    assume a: "?rule \<noteq> ''last'' \<and> parsed_day ?rule = None \<and> ?fb = Some a"
    then have "1 \<le> a" using getDate_range by blast
    then have "a \<le> ndays \<longrightarrow> clamp_day a ndays = a"
      by (simp add: clamp_day_def)
    with a single getMonthlyDate_fallback(1) [OF month, of ?rule a] clamp [of a]
    show "item_dates monthId item = [month_day monthId (clamp_day a ndays)]
              \<and> 1 \<le> clamp_day a ndays \<and> clamp_day a ndays \<le> ndays
              \<and> (a \<le> ndays \<longrightarrow> clamp_day a ndays = a)"
      by simp
  qed
  have invalid: "?rule \<noteq> ''last'' \<and> parsed_day ?rule = None \<and> ?fb = None \<longrightarrow>
              item_dates monthId item = [monthId @ ''-NaN'']"
    using single getMonthlyDate_fallback(2) [OF month, of ?rule] by simp
  note digits = parsed_day_all_digits
  note number = parseInt10_all_number
  note no_number = parseInt10_all_no_number
  have raw: "\<forall>r. day_rule_raw (''day:'' @ r) = r" "\<forall>r. take 4 r \<noteq> ''day:'' \<longrightarrow> day_rule_raw r = r"
    using day_rule_raw_prefix day_rule_raw_other by blast+
  have absent: "parsed_day [] = None"
    by (simp add: parsed_day_def parseInt10_def day_rule_raw_def)
  have feb24: "getMonthlyDate ''2024-02'' ''31'' fb = ''2024-02-29''"
    by code_simp
  have feb23: "getMonthlyDate ''2023-02'' ''31'' fb = ''2023-02-28''"
    by code_simp
  show ?thesis
    using ndays last numeric fallback invalid digits number no_number raw absent feb24 feb23
    by (intro conjI) assumption+
qed


theorem monthly_item_date_witness:
  "item_dates ''2024-02'' rent_item = [''2024-02-29'']
   \<and> item_dates ''2024-02'' (rent_item\<lparr>ri_day_rule := ''day:7''\<rparr>) = [''2024-02-07'']
   \<and> item_dates ''2024-02'' (rent_item\<lparr>ri_day_rule := ''last''\<rparr>) = [''2024-02-29'']
   \<and> item_dates ''2024-02'' (rent_item\<lparr>ri_day_rule := [], ri_anchor_date := Some ''2024-01-31''\<rparr>)
       = [''2024-02-29'']
   \<and> item_dates ''2024-02'' (rent_item\<lparr>ri_day_rule := ''soon'', ri_anchor_date := Some ''2024-01-12''\<rparr>)
       = [''2024-02-12'']
   \<and> item_dates ''2024-02'' (rent_item\<lparr>ri_day_rule := ''15th'', ri_anchor_date := Some ''2024-01-03''\<rparr>)
       = [''2024-02-15'']
   \<and> item_dates ''2024-02'' (rent_item\<lparr>ri_day_rule := ''-5'', ri_anchor_date := Some ''2024-01-03''\<rparr>)
       = [''2024-02-01'']
   \<and> item_dates ''2024-02'' (rent_item\<lparr>ri_day_rule := '' 9'', ri_anchor_date := Some ''2024-01-03''\<rparr>)
       = [''2024-02-09'']
   \<and> item_dates ''2024-02'' (rent_item\<lparr>ri_day_rule := ''7.9'', ri_anchor_date := Some ''2024-01-03''\<rparr>)
       = [''2024-02-07'']
   \<and> item_dates ''2024-02''
         (rent_item\<lparr>ri_day_rule := CHR 0xA0 # ''12'', ri_anchor_date := Some ''2024-01-03''\<rparr>)
       = [''2024-02-12'']
   \<and> item_dates ''2024-02''
         (rent_item\<lparr>ri_day_rule := CHR ''1'' # replicate 309 CHR ''0'',
                     ri_anchor_date := Some ''2024-01-03''\<rparr>)
       = [''2024-02-03'']
   \<and> item_dates ''2024-02'' (rent_item\<lparr>ri_day_rule := ''soon'', ri_anchor_date := Some ''someday''\<rparr>)
       = [''2024-02-NaN'']"
proof -
  have month: "mi_daysInMonth (getMonthInfo ''2024-02'') = Some 29"
    by code_simp
  have numeric: "item_dates ''2024-02'' it = [month_day ''2024-02'' (clamp_day n 29)]"
    if "ri_cadence it = Monthly" "ri_day_rule it \<noteq> ''last''" "parsed_day (ri_day_rule it) = Some n"
    for it n
    using monthly_item_date [OF month that(1)] that(2,3) by blast
  have final: "item_dates ''2024-02'' it = [month_day ''2024-02'' 29]"
    if "ri_cadence it = Monthly" "ri_day_rule it = ''last''" for it
    using monthly_item_date [OF month that(1)] that(2) by blast
  have fallback: "item_dates ''2024-02'' it = [month_day ''2024-02'' (clamp_day a 29)]"
    if "ri_cadence it = Monthly" "ri_day_rule it \<noteq> ''last''"
      "parsed_day (ri_day_rule it) = None"
      "getDate (parseDate (item_anchor ''2024-02'' it)) = Some a" for it a
    using monthly_item_date [OF month that(1)] that(2,3,4) by blast
  have invalid: "item_dates ''2024-02'' it = [''2024-02'' @ ''-NaN'']"
    if "ri_cadence it = Monthly" "ri_day_rule it \<noteq> ''last''"
      "parsed_day (ri_day_rule it) = None"
      "getDate (parseDate (item_anchor ''2024-02'' it)) = None" for it
    using monthly_item_date [OF month that(1)] that(2,3,4) by blast
  have days: "month_day ''2024-02'' (clamp_day 31 29) = ''2024-02-29''"
    "month_day ''2024-02'' (clamp_day 7 29) = ''2024-02-07''"
    "month_day ''2024-02'' 29 = ''2024-02-29''"
    "month_day ''2024-02'' (clamp_day 12 29) = ''2024-02-12''"
    "month_day ''2024-02'' (clamp_day 15 29) = ''2024-02-15''"
    "month_day ''2024-02'' (clamp_day (- 5) 29) = ''2024-02-01''"
    "month_day ''2024-02'' (clamp_day 9 29) = ''2024-02-09''"
    "month_day ''2024-02'' (clamp_day 3 29) = ''2024-02-03''"
    by code_simp+
  have parsed: "parsed_day ''31'' = Some 31" "parsed_day ''day:7'' = Some 7"
    "parsed_day [] = None" "parsed_day ''soon'' = None" "parsed_day ''15th'' = Some 15"
    "parsed_day ''-5'' = Some (- 5)" "parsed_day '' 9'' = Some 9" "parsed_day ''7.9'' = Some 7"
    "parsed_day (CHR 0xA0 # ''12'') = Some 12"
    by code_simp+
  have big: "parsed_day (CHR ''1'' # replicate 309 CHR ''0'') = None"
  proof -
    let ?ds = "CHR ''1'' # replicate 309 CHR ''0''"
    have ds: "?ds \<noteq> []" "list_all is_digit ?ds"
      by (simp_all add: list_all_iff is_digit_def)
    have "digits_to_nat ?ds = 10 ^ 309"
      using digits_to_nat_append [of "''1''" "replicate 309 CHR ''0''"]
        digits_to_nat_zeros [of "digits_to_nat ''1''" 309]
      by (simp add: digits_to_nat_def digit_val_def)
    then have "\<not> js_finite (int (digits_to_nat ?ds))"
      by (simp add: js_finite_def)
    with parsed_day_digits(1) [OF ds] show ?thesis by simp
  qed
  have anchors: "getDate (parseDate (item_anchor ''2024-02''
        (rent_item\<lparr>ri_day_rule := r, ri_anchor_date := Some ''2024-01-31''\<rparr>))) = Some 31"
    "getDate (parseDate (item_anchor ''2024-02''
        (rent_item\<lparr>ri_day_rule := r, ri_anchor_date := Some ''2024-01-12''\<rparr>))) = Some 12"
    "getDate (parseDate (item_anchor ''2024-02''
        (rent_item\<lparr>ri_day_rule := r, ri_anchor_date := Some ''2024-01-03''\<rparr>))) = Some 3"
    "getDate (parseDate (item_anchor ''2024-02''
        (rent_item\<lparr>ri_day_rule := r, ri_anchor_date := Some ''someday''\<rparr>))) = None" for r
    unfolding item_anchor_def by (simp, code_simp)+
  have c1: "item_dates ''2024-02'' rent_item = [''2024-02-29'']"
    using numeric [of rent_item 31] parsed days by (simp add: rent_item_def)
  have c2: "item_dates ''2024-02'' (rent_item\<lparr>ri_day_rule := ''day:7''\<rparr>) = [''2024-02-07'']"
    using numeric [of "rent_item\<lparr>ri_day_rule := ''day:7''\<rparr>" 7] parsed days
    by (simp add: rent_item_def)
  have c3: "item_dates ''2024-02'' (rent_item\<lparr>ri_day_rule := ''last''\<rparr>) = [''2024-02-29'']"
    using final [of "rent_item\<lparr>ri_day_rule := ''last''\<rparr>"] days
    by (simp add: rent_item_def)
  have c4: "item_dates ''2024-02'' (rent_item\<lparr>ri_day_rule := [], ri_anchor_date := Some ''2024-01-31''\<rparr>)
       = [''2024-02-29'']"
    using fallback [of "rent_item\<lparr>ri_day_rule := [], ri_anchor_date := Some ''2024-01-31''\<rparr>" 31]
      anchors parsed days
    by (simp add: rent_item_def)
  have c5: "item_dates ''2024-02'' (rent_item\<lparr>ri_day_rule := ''soon'', ri_anchor_date := Some ''2024-01-12''\<rparr>)
       = [''2024-02-12'']"
    using fallback [of "rent_item\<lparr>ri_day_rule := ''soon'', ri_anchor_date := Some ''2024-01-12''\<rparr>" 12]
      anchors parsed days
    by (simp add: rent_item_def)
  have c6: "item_dates ''2024-02'' (rent_item\<lparr>ri_day_rule := ''15th'', ri_anchor_date := Some ''2024-01-03''\<rparr>)
       = [''2024-02-15'']"
    using numeric [of "rent_item\<lparr>ri_day_rule := ''15th'', ri_anchor_date := Some ''2024-01-03''\<rparr>" 15]
      parsed days
    by (simp add: rent_item_def)
  have c7: "item_dates ''2024-02'' (rent_item\<lparr>ri_day_rule := ''-5'', ri_anchor_date := Some ''2024-01-03''\<rparr>)
       = [''2024-02-01'']"
    using numeric [of "rent_item\<lparr>ri_day_rule := ''-5'', ri_anchor_date := Some ''2024-01-03''\<rparr>" "- 5"]
      parsed days
    by (simp add: rent_item_def)
  have c8: "item_dates ''2024-02'' (rent_item\<lparr>ri_day_rule := '' 9'', ri_anchor_date := Some ''2024-01-03''\<rparr>)
       = [''2024-02-09'']"
    using numeric [of "rent_item\<lparr>ri_day_rule := '' 9'', ri_anchor_date := Some ''2024-01-03''\<rparr>" 9]
      parsed days
    by (simp add: rent_item_def)
  have c9: "item_dates ''2024-02'' (rent_item\<lparr>ri_day_rule := ''7.9'', ri_anchor_date := Some ''2024-01-03''\<rparr>)
       = [''2024-02-07'']"
    using numeric [of "rent_item\<lparr>ri_day_rule := ''7.9'', ri_anchor_date := Some ''2024-01-03''\<rparr>" 7]
      parsed days
    by (simp add: rent_item_def)
  have c10: "item_dates ''2024-02''
         (rent_item\<lparr>ri_day_rule := CHR 0xA0 # ''12'', ri_anchor_date := Some ''2024-01-03''\<rparr>)
       = [''2024-02-12'']"
    using numeric [of "rent_item\<lparr>ri_day_rule := CHR 0xA0 # ''12'', ri_anchor_date := Some ''2024-01-03''\<rparr>" 12]
      parsed days
    by (simp add: rent_item_def)
  have c11: "item_dates ''2024-02''
         (rent_item\<lparr>ri_day_rule := CHR ''1'' # replicate 309 CHR ''0'',
                     ri_anchor_date := Some ''2024-01-03''\<rparr>)
       = [''2024-02-03'']"
    using fallback [of "rent_item\<lparr>ri_day_rule := CHR ''1'' # replicate 309 CHR ''0'',
                     ri_anchor_date := Some ''2024-01-03''\<rparr>" 3]
      anchors big days
    by (simp add: rent_item_def)
  have c12: "item_dates ''2024-02'' (rent_item\<lparr>ri_day_rule := ''soon'', ri_anchor_date := Some ''someday''\<rparr>)
       = [''2024-02-NaN'']"
    using invalid [of "rent_item\<lparr>ri_day_rule := ''soon'', ri_anchor_date := Some ''someday''\<rparr>"]
      anchors parsed
    by (simp add: rent_item_def)
  from c1 c2 c3 c4 c5 c6 c7 c8 c9 c10 c11 c12 show ?thesis by (intro conjI)
qed

section \<open>Scenarios of the specification\<close>

text \<open>
  The runtime's calendar as modelled: the lengths of the months of 2024 and of four
  Februaries, among them the century years.
\<close>

lemma calendar_2024:
  "map (\<lambda>m. mi_daysInMonth (getMonthInfo m))
     [''2024-01'', ''2024-02'', ''2024-03'', ''2024-04'', ''2024-05'', ''2024-06'',
      ''2024-07'', ''2024-08'', ''2024-09'', ''2024-10'', ''2024-11'', ''2024-12'']
   = map Some [31, 29, 31, 30, 31, 30, 31, 31, 30, 31, 30, 31]"
  by code_simp

lemma calendar_2023_1900_2000:
  "map (\<lambda>m. mi_daysInMonth (getMonthInfo m)) [''2023-02'', ''1900-02'', ''2000-02'', ''2100-02'']
   = map Some [28, 28, 29, 28]"
  by code_simp

text \<open>
  A semimonthly schedule is the 15th and the last day of the month, whatever the anchor, in
  the generator and in the payroll engine alike.
\<close>

lemma semimonthly_dates:
  "getScheduleDates monthId Semimonthly anchorDate
     = [monthId @ ''-15'',
        monthId @ ''-'' @ padStart2 (num_to_string (mi_daysInMonth (getMonthInfo monthId)))]
   \<and> getPayDatesForMonth monthId Semimonthly anchorDate
     = getScheduleDates monthId Semimonthly anchorDate'
   \<and> getScheduleDates ''2024-02'' Semimonthly anchorDate = [''2024-02-15'', ''2024-02-29'']"
proof -
  have "getScheduleDates ''2024-02'' Semimonthly [] = [''2024-02-15'', ''2024-02-29'']"
    by code_simp
  then show ?thesis
    by (simp add: getScheduleDates_def getPayDatesForMonth_def semimonthlyDates_def Let_def)
qed

text \<open>
  Starting balance 1000 on the checking account and a monthly rent of 1200 on day 1 of March
  2024: the balance is -200 on 2024-03-01 and stays there through 2024-03-31.
\<close>

lemma rent_scenario:
  "map (\<lambda>p. (balances p ''acc1'', total_cash p)) (calculateForecast rent_snapshot)
     = replicate 31 (Some (- 200), - 200)
   \<and> fp_date (hd (calculateForecast rent_snapshot)) = ''2024-03-01''
   \<and> fp_date (last (calculateForecast rent_snapshot)) = ''2024-03-31''"
  by code_simp

text \<open>
  A salary of 120000 paid biweekly, without 401(k), benefits or FICA and with one flat
  bracket of 20 percent: each paycheck has gross 120000/26, federal withholding 24000/26 and
  net 96000/26.
\<close>

lemma biweekly_scenario:
  "map (\<lambda>r. (pc_date r, gross r, federal_withholding r, net r)) (calculatePayrollForMonth biweekly_args)
     = [(''2024-01-05'', 120000 / 26, 24000 / 26, 96000 / 26),
        (''2024-01-19'', 120000 / 26, 24000 / 26, 96000 / 26)]"
  by code_simp

text \<open>
  A second run in \<open>missing\<close> mode on the result of a first one adds nothing: every key
  it generates is already present.
\<close>

lemma generated_ids_eq:
  "map tx_source_item_id (generatedTransactions env m ms items)
     = map tx_source_item_id (generatedTransactions env' m ms items)"
proof -
  have "map (\<lambda>k. snd (snd (snd k))) (map key_fields (generatedTransactions env m ms items))
      = map (\<lambda>k. snd (snd (snd k))) (map key_fields (generatedTransactions env' m ms items))"
    by (simp only: generated_keys [of env m ms items env'])
  then show ?thesis by (simp add: key_fields_def comp_def)
qed

lemma missing_twice_adds_nothing:
  "transactions
     (generateMonthTransactions env' monthId
        (month_setup (generateMonthTransactions env monthId ms items existing Missing)) items
        (transactions (generateMonthTransactions env monthId ms items existing Missing)) Missing)
   = transactions (generateMonthTransactions env monthId ms items existing Missing)"
proof -
  let ?gen = "generatedTransactions env monthId ms items"
  let ?gen' = "generatedTransactions env' monthId ms items"
  let ?added = "filter (\<lambda>tx. tx_source_item_id tx \<notin> set (existingIds existing)) ?gen"
  have first: "transactions (generateMonthTransactions env monthId ms items existing Missing)
      = existing @ ?added"
    by (simp add: generateMonthTransactions_def Let_def)
  have second: "transactions
     (generateMonthTransactions env' monthId
        (month_setup (generateMonthTransactions env monthId ms items existing Missing)) items
        (existing @ ?added) Missing)
      = (existing @ ?added)
        @ filter (\<lambda>tx. tx_source_item_id tx \<notin> set (existingIds (existing @ ?added))) ?gen'"
    by (simp add: generateMonthTransactions_def Let_def generated_setup_stamp)
  have known: "tx_source_item_id tx' \<in> set (existingIds (existing @ ?added))"
    if "tx' \<in> set ?gen'" for tx'
  proof -
    from that have "tx_source_item_id tx' \<in> set (map tx_source_item_id ?gen')" by simp
    then have "tx_source_item_id tx' \<in> set (map tx_source_item_id ?gen)"
      by (simp only: generated_ids_eq [of env monthId ms items env'])
    then obtain tx where tx: "tx \<in> set ?gen" and same: "tx_source_item_id tx = tx_source_item_id tx'"
      by auto
    from tx have "is_generated tx" by (rule generated_is_generated)
    then have truthy: "truthy_opt (tx_source_item_id tx)" by (simp add: is_generated_def)
    show ?thesis
    proof (cases "tx_source_item_id tx \<in> set (existingIds existing)")
      case True
      with same show ?thesis by (simp add: existingIds_def)
    next
      case False
      with tx have "tx \<in> set ?added" by simp
      with truthy have "tx_source_item_id tx \<in> set (existingIds (existing @ ?added))"
        unfolding existingIds_def by force
      with same show ?thesis by simp
    qed
  qed
  then have "filter (\<lambda>tx. tx_source_item_id tx \<notin> set (existingIds (existing @ ?added))) ?gen' = []"
    by (simp add: filter_empty_conv)
  with first second show ?thesis by simp
qed

section \<open>Order of the payroll events\<close>

text \<open>
  The event list is ordered by date with a regular event ahead of a bonus event of the same
  date, and holds exactly the regular events of the year-to-date pay dates and the bonus
  events that pass the filter on the month id.
\<close>

lemma event_le_iff:
  "event_le a b = (ev_date a < ev_date b \<or> (ev_date a = ev_date b \<and> (ev_is_bonus a \<longrightarrow> ev_is_bonus b)))"
  by (auto simp: event_le_def compare_events_def)

lemma event_le_total: "event_le a b \<or> event_le b a"
  by (auto simp: event_le_iff)

lemma event_le_trans: "event_le a b \<Longrightarrow> event_le b c \<Longrightarrow> event_le a c"
  by (auto simp: event_le_iff)

lemma set_insert_by: "set (insert_by cmp x ys) = insert x (set ys)"
  by (induction ys) auto

lemma sorted_insert_by:
  "sorted_wrt event_le ys \<Longrightarrow> sorted_wrt event_le (insert_by compare_events x ys)"
proof (induction ys)
  case Nil
  then show ?case by simp
next
  case (Cons y ys)
  show ?case
  proof (cases "compare_events x y \<le> 0")
    case True
    then have xy: "event_le x y" by (simp add: event_le_def)
    with Cons.prems have "\<forall>z\<in>set ys. event_le x z"
      by (auto intro: event_le_trans)
    with True xy Cons.prems show ?thesis by simp
  next
    case False
    then have "event_le y x" using event_le_total [of x y] by (simp add: event_le_def)
    with False Cons show ?thesis by (auto simp: set_insert_by)
  qed
qed

lemma sorted_sort_by: "sorted_wrt event_le (sort_by compare_events xs)"
  by (induction xs) (simp_all add: sort_by_def sorted_insert_by)

lemma set_sort_by: "set (sort_by cmp xs) = set xs"
  by (induction xs) (simp_all add: sort_by_def set_insert_by)

lemma length_insert_by: "length (insert_by cmp x ys) = Suc (length ys)"
  by (induction ys) auto

lemma length_sort_by: "length (sort_by cmp xs) = length xs"
  by (induction xs) (simp_all add: sort_by_def length_insert_by)

lemma payroll_events_sorted:
  "sorted_wrt event_le (buildPayrollEvents monthId schedule anchorDate bonusEvents)
   \<and> set (buildPayrollEvents monthId schedule anchorDate bonusEvents)
       = regular_event ` set (buildYearToDatePayDates monthId schedule anchorDate)
         \<union> set (bonusEventsInRange monthId bonusEvents)
   \<and> length (buildPayrollEvents monthId schedule anchorDate bonusEvents)
       = length (buildYearToDatePayDates monthId schedule anchorDate)
         + length (bonusEventsInRange monthId bonusEvents)"
  by (simp add: buildPayrollEvents_def Let_def sorted_sort_by set_sort_by length_sort_by)

end
